theory Spec2Isabelle
  imports Complex_Main "HOL-Library.Sublist" "HOL-Library.AList"
begin

section \<open>JavaScript values\<close>

text \<open>
  The worker receives its inputs untyped: the decoded request body is \<^verbatim>\<open>any\<close>, and the
  search binding returns whatever the platform hands back. The TypeScript interfaces are
  erased at run time, so the model keeps such values as \<open>jsval\<close> and the type guards
  of \<^verbatim>\<open>types.ts\<close> are functions on it. An object is the list of its own properties in
  insertion order. A number is a real: the model has exact arithmetic and no \<^verbatim>\<open>NaN\<close>,
  no infinities and no rounding of doubles. A character of a string stands for one
  UTF-16 code unit.
\<close>

datatype jsval =
    JUndefined
  | JNull
  | JBool bool
  | JNum real
  | JStr string
  | JArr "jsval list"
  | JObj "(string \<times> jsval) list"

text \<open>What \<^verbatim>\<open>!!v\<close> is: the conversion every \<^verbatim>\<open>&&\<close>, \<^verbatim>\<open>||\<close>, \<^verbatim>\<open>!\<close> and \<^verbatim>\<open>if\<close> applies.\<close>

fun truthy :: "jsval \<Rightarrow> bool" where
  "truthy JUndefined = False"
| "truthy JNull = False"
| "truthy (JBool b) = b"
| "truthy (JNum r) = (r \<noteq> 0)"
| "truthy (JStr s) = (s \<noteq> [])"
| "truthy (JArr xs) = True"
| "truthy (JObj kvs) = True"

fun typeof :: "jsval \<Rightarrow> string" where
  "typeof JUndefined = ''undefined''"
| "typeof JNull = ''object''"
| "typeof (JBool b) = ''boolean''"
| "typeof (JNum r) = ''number''"
| "typeof (JStr s) = ''string''"
| "typeof (JArr xs) = ''object''"
| "typeof (JObj kvs) = ''object''"

fun isArray :: "jsval \<Rightarrow> bool" where
  "isArray (JArr xs) = True"
| "isArray v = False"

text \<open>
  \<^verbatim>\<open>v == null\<close>: reading a property of such a value throws a \<^verbatim>\<open>TypeError\<close>.
\<close>

fun nullish :: "jsval \<Rightarrow> bool" where
  "nullish JUndefined = True"
| "nullish JNull = True"
| "nullish v = False"

text \<open>
  The property read \<^verbatim>\<open>v.k\<close> for the names the program reads (\<^verbatim>\<open>messages\<close>, \<^verbatim>\<open>role\<close>,
  \<^verbatim>\<open>content\<close>, \<^verbatim>\<open>data\<close>, \<^verbatim>\<open>score\<close>, \<^verbatim>\<open>length\<close>, ...): an own property of an object, the
  length of an array or string, and \<^verbatim>\<open>undefined\<close> otherwise. The caller rules out
  \<open>nullish v\<close> first, as every read in the source does with a guard.
\<close>

fun js_get :: "jsval \<Rightarrow> string \<Rightarrow> jsval" where
  "js_get (JObj kvs) k = (case map_of kvs k of Some v \<Rightarrow> v | None \<Rightarrow> JUndefined)"
| "js_get (JArr xs) k = (if k = ''length'' then JNum (of_nat (length xs)) else JUndefined)"
| "js_get (JStr s) k = (if k = ''length'' then JNum (of_nat (length s)) else JUndefined)"
| "js_get v k = JUndefined"

text \<open>Reading a value that a \<^verbatim>\<open>typeof\<close> or \<^verbatim>\<open>Array.isArray\<close> guard has already typed.\<close>

fun the_str :: "jsval \<Rightarrow> string" where
  "the_str (JStr s) = s"
| "the_str v = []"

fun the_num :: "jsval \<Rightarrow> real" where
  "the_num (JNum r) = r"
| "the_num v = 0"

fun the_arr :: "jsval \<Rightarrow> jsval list" where
  "the_arr (JArr xs) = xs"
| "the_arr v = []"

text \<open>
  What a \<^verbatim>\<open>throw\<close> or a rejected promise carries: an \<^verbatim>\<open>Error\<close> with its message, or any
  other value.
\<close>

datatype thrown = JsError string | NonError

text \<open>
  The conversions that JavaScript applies where the worker hands it a value of the
  request that is not of the expected type. They are parameters of the model, and every
  statement holds for all of them:
  \<^item> \<open>gt_number cv v n\<close> is \<^verbatim>\<open>v > n\<close> for a string, array or object \<open>v\<close>, which is
    converted to a primitive value and then to a number;
  \<^item> \<open>to_string cv v\<close> is the string that a template literal puts for a value \<open>v\<close> that
    is not a string.
  Both throw a \<^verbatim>\<open>TypeError\<close> for an object that cannot be converted to a primitive
  value, as \<^verbatim>\<open>{"toString": 1}\<close> cannot.
\<close>

record conversions =
  gt_number :: "jsval \<Rightarrow> real \<Rightarrow> thrown + bool"
  to_string :: "jsval \<Rightarrow> thrown + string"

section \<open>Strings and numbers\<close>

text \<open>\<^verbatim>\<open>parts.join(sep)\<close>.\<close>

fun js_join :: "string \<Rightarrow> string list \<Rightarrow> string" where
  "js_join sep [] = []"
| "js_join sep [x] = x"
| "js_join sep (x # y # ys) = x @ sep @ js_join sep (y # ys)"

text \<open>
  The white space and line terminators that \<^verbatim>\<open>trim()\<close> strips, as far as one byte
  holds them: tab, line feed, vertical tab, form feed, carriage return, space and the
  no-break space.
\<close>

definition is_js_space :: "char \<Rightarrow> bool" where
  "is_js_space c = (of_char c \<in> {9, 10, 11, 12, 13, 32, 160 :: nat})"

definition js_trim :: "string \<Rightarrow> string" where
  "js_trim s = rev (dropWhile is_js_space (rev (dropWhile is_js_space s)))"

text \<open>\<^verbatim>\<open>s.includes(sub)\<close> and \<^verbatim>\<open>s.startsWith(p)\<close>.\<close>

fun js_includes :: "string \<Rightarrow> string \<Rightarrow> bool" where
  "js_includes [] sub = (sub = [])"
| "js_includes (c # cs) sub = (prefix sub (c # cs) \<or> js_includes cs sub)"

definition startsWith :: "string \<Rightarrow> string \<Rightarrow> bool" where
  "startsWith s p = prefix p s"

definition digit :: "nat \<Rightarrow> char" where
  "digit d = ''0123456789'' ! (d mod 10)"

text \<open>\<^verbatim>\<open>n.toString()\<close> and \<^verbatim>\<open>`${n}`\<close> for a non-negative integer: its decimal digits.\<close>

fun show_nat :: "nat \<Rightarrow> string" where
  "show_nat n = (if n < 10 then [digit n] else show_nat (n div 10) @ [digit (n mod 10)])"

declare show_nat.simps [simp del]

text \<open>The last \<open>f\<close> decimal digits of \<open>n\<close>, with leading zeros.\<close>

fun last_digits :: "nat \<Rightarrow> nat \<Rightarrow> string" where
  "last_digits 0 n = []"
| "last_digits (Suc f) n = last_digits f (n div 10) @ [digit n]"

text \<open>
  \<^verbatim>\<open>x.toFixed(f)\<close> for \<open>f > 0\<close>, as ECMAScript defines it below \<open>10\<^sup>2\<^sup>1\<close>: the sign of
  a negative number, then the integer \<open>n\<close> closest to \<open>10\<^sup>f * |x|\<close> (the larger one of
  two), written with a point before its last \<open>f\<close> digits.
\<close>

definition toFixed :: "real \<Rightarrow> nat \<Rightarrow> string" where
  "toFixed x f =
     (let n = nat \<lfloor>\<bar>x\<bar> * 10 ^ f + 1 / 2\<rfloor>
      in (if x < 0 then ''-'' else []) @ show_nat (n div 10 ^ f) @ ''.'' @ last_digits f n)"

section \<open>The retrieval step (index.ts)\<close>

record source_entry =
  filename :: string
  score :: real
  relevantText :: string

record RAGContext =
  contextText :: string
  documentCount :: nat
  averageScore :: real
  sources :: "source_entry list"
  hasContext :: bool

text \<open>
  \<^verbatim>\<open>isSearchResult\<close> of types.ts: the chain of \<^verbatim>\<open>&&\<close>, read for its truth value (the
  only use the callers make of it).
\<close>

definition isSearchResult :: "jsval \<Rightarrow> bool" where
  "isSearchResult obj =
     (truthy obj \<and>
      typeof obj = ''object'' \<and>
      typeof (js_get obj ''file_id'') = ''string'' \<and>
      typeof (js_get obj ''filename'') = ''string'' \<and>
      typeof (js_get obj ''score'') = ''number'' \<and>
      isArray (js_get obj ''content'') \<and>
      list_all (\<lambda>content.
          truthy content \<and>
          typeof (js_get content ''type'') = ''string'' \<and>
          typeof (js_get content ''text'') = ''string'')
        (the_arr (js_get obj ''content'')))"

definition createEmptyRAGContext :: RAGContext where
  "createEmptyRAGContext =
     \<lparr> contextText = [], documentCount = 0, averageScore = 0, sources = [],
       hasContext = False \<rparr>"

text \<open>
  \<^verbatim>\<open>doc.content.filter(c => c.type === "text").map(c => c.text).join('\n').trim()\<close>
\<close>

definition textContent :: "jsval \<Rightarrow> string" where
  "textContent doc =
     js_trim (js_join ''\<newline>''
       (map (\<lambda>content. the_str (js_get content ''text''))
         (filter (\<lambda>content. js_get content ''type'' = JStr ''text'')
           (the_arr (js_get doc ''content'')))))"

text \<open>The three variables the \<^verbatim>\<open>forEach\<close> callback of \<^verbatim>\<open>buildRAGContext\<close> updates.\<close>

record build_state =
  contextParts :: "string list"
  sources_acc :: "source_entry list"
  totalScore :: real

definition contextEntry :: "nat \<Rightarrow> jsval \<Rightarrow> string" where
  "contextEntry index doc =
     ''[Document '' @ show_nat (index + 1) @ '': '' @ the_str (js_get doc ''filename'')
       @ '' (Relevance: '' @ toFixed (the_num (js_get doc ''score'')) 2 @ '')]\<newline>''
       @ textContent doc"

definition sourceOf :: "jsval \<Rightarrow> source_entry" where
  "sourceOf doc =
     \<lparr> filename = the_str (js_get doc ''filename''),
       score = the_num (js_get doc ''score''),
       relevantText =
         take 200 (textContent doc) @ (if length (textContent doc) > 200 then ''...'' else []) \<rparr>"

text \<open>
  One call of the callback, on \<open>(index, doc)\<close>: an early return for a document that
  fails the guard; the three updates only under \<^verbatim>\<open>if (textContent)\<close>.
\<close>

definition forEach_doc :: "build_state \<Rightarrow> nat \<times> jsval \<Rightarrow> build_state" where
  "forEach_doc st p =
     (let index = fst p; doc = snd p in
      if \<not> isSearchResult doc then st
      else if textContent doc \<noteq> [] then
        \<lparr> contextParts = contextParts st @ [contextEntry index doc],
          sources_acc = sources_acc st @ [sourceOf doc],
          totalScore = totalScore st + the_num (js_get doc ''score'') \<rparr>
      else st)"

text \<open>
  \<^verbatim>\<open>buildRAGContext\<close>, on the array \<^verbatim>\<open>searchResult.data\<close> (its only caller has checked
  \<^verbatim>\<open>Array.isArray\<close>).
\<close>

definition buildRAGContext :: "jsval list \<Rightarrow> RAGContext" where
  "buildRAGContext documents =
     (if documents = [] then createEmptyRAGContext
      else
        let st = foldl forEach_doc
                   \<lparr> contextParts = [], sources_acc = [], totalScore = 0 \<rparr>
                   (enumerate 0 documents);
            ctext = js_join ''\<newline>\<newline>'' (contextParts st)
        in \<lparr> contextText = ctext,
             documentCount = length documents,
             averageScore =
               (if length documents > 0 then totalScore st / of_nat (length documents) else 0),
             sources = sources_acc st,
             hasContext = (length ctext > 0) \<rparr>)"

record SearchOptions =
  query :: string
  max_num_results :: jsval
  score_threshold :: jsval
  rewrite_query :: jsval

text \<open>
  The platform binding \<^verbatim>\<open>env.AI.autorag(index).search(options)\<close>: it answers with a
  value or throws. It is a parameter of the model.
\<close>

type_synonym autorag = "jsval \<Rightarrow> SearchOptions \<Rightarrow> thrown + jsval"

text \<open>The object literal \<^verbatim>\<open>searchOptions\<close> of \<^verbatim>\<open>searchAutoRAG\<close>.\<close>

definition searchOptions_of :: "string \<Rightarrow> jsval \<Rightarrow> SearchOptions" where
  "searchOptions_of q ragSettings =
     \<lparr> query = q,
       max_num_results = js_get ragSettings ''maxResults'',
       score_threshold = js_get ragSettings ''scoreThreshold'',
       rewrite_query = js_get ragSettings ''rewriteQuery'' \<rparr>"

text \<open>
  The \<^verbatim>\<open>try\<close> block of \<^verbatim>\<open>searchAutoRAG\<close>; \<open>Inl\<close> is an exception leaving it. Reading
  \<^verbatim>\<open>ragSettings.maxResults\<close> throws when \<^verbatim>\<open>ragSettings\<close> is null or undefined; the
  search call throws when the binding does.
\<close>

definition searchAutoRAG_try :: "string \<Rightarrow> jsval \<Rightarrow> autorag \<Rightarrow> thrown + RAGContext" where
  "searchAutoRAG_try q ragSettings search =
     (if nullish ragSettings then Inl (JsError ''TypeError'')
      else
        case search (js_get ragSettings ''index'') (searchOptions_of q ragSettings) of
          Inl e \<Rightarrow> Inl e
        | Inr searchResult \<Rightarrow>
            if \<not> truthy searchResult \<or> \<not> truthy (js_get searchResult ''data'')
               \<or> \<not> isArray (js_get searchResult ''data'')
            then Inr createEmptyRAGContext
            else Inr (buildRAGContext (the_arr (js_get searchResult ''data''))))"

text \<open>
  \<^verbatim>\<open>searchAutoRAG\<close>: how the promise it returns settles, \<open>Inr\<close> fulfilled and \<open>Inl\<close>
  rejected. The \<^verbatim>\<open>catch\<close> returns the empty context for whatever was thrown.
\<close>

definition searchAutoRAG :: "string \<Rightarrow> jsval \<Rightarrow> autorag \<Rightarrow> thrown + RAGContext" where
  "searchAutoRAG q ragSettings search =
     (case searchAutoRAG_try q ragSettings search of
        Inl e \<Rightarrow> Inr createEmptyRAGContext
      | Inr ragContext \<Rightarrow> Inr ragContext)"

section \<open>Configuration (types.ts)\<close>

text \<open>The fields of \<^verbatim>\<open>DEFAULT_CONFIG\<close> that the worker reads, and \<^verbatim>\<open>ERROR_MESSAGES.LLM_FAILURE\<close>.\<close>

definition CONFIG_model :: string where
  "CONFIG_model = ''@cf/meta/llama-3.3-70b-instruct-fp8-fast''"

definition CONFIG_autoragIndex :: string where
  "CONFIG_autoragIndex = ''damagescan-rag-1''"

definition CONFIG_defaultSystemPrompt :: string where
  "CONFIG_defaultSystemPrompt =
     ''You are a helpful, friendly assistant. Use the provided context from the knowledge base to enhance your responses when relevant, but you can also draw from your general knowledge. If context is provided, prioritize it but explain clearly when you're using external knowledge vs. the knowledge base. Provide concise and accurate responses.''"

definition CONFIG_ragSettings :: "(string \<times> jsval) list" where
  "CONFIG_ragSettings =
     [(''maxResults'', JNum 5), (''scoreThreshold'', JNum (1 / 10)),
      (''rewriteQuery'', JBool True)]"

definition LLM_FAILURE :: string where
  "LLM_FAILURE = ''AI model temporarily unavailable. Please try again.''"

section \<open>The prompt augmenter (index.ts)\<close>

record EnhancedSystemPrompt =
  prompt :: string
  hasRAGContext :: bool
  contextSummary :: string
  tokenEstimate :: nat

text \<open>\<^verbatim>\<open>Math.ceil(text.length / 4)\<close>\<close>

definition estimateTokens :: "string \<Rightarrow> nat" where
  "estimateTokens text = (length text + 3) div 4"

text \<open>
  \<^verbatim>\<open>buildEnhancedSystemPrompt\<close>, on the \<^verbatim>\<open>basePrompt\<close> and \<^verbatim>\<open>ragContext\<close> of its argument
  (it never reads \<^verbatim>\<open>includeInstructions\<close>). The template literal is written out with
  its line breaks.
\<close>

definition buildEnhancedSystemPrompt :: "string \<Rightarrow> RAGContext \<Rightarrow> EnhancedSystemPrompt" where
  "buildEnhancedSystemPrompt basePrompt ragContext =
     (if \<not> hasContext ragContext then
        \<lparr> prompt = basePrompt,
          hasRAGContext = False,
          contextSummary = ''No relevant documents found in knowledge base'',
          tokenEstimate = estimateTokens basePrompt \<rparr>
      else
        let summary =
              ''Found '' @ show_nat (documentCount ragContext)
                @ '' relevant documents (avg. relevance: ''
                @ toFixed (averageScore ragContext) 2 @ '')'';
            enhancedPrompt =
              basePrompt
                @ ''\<newline>\<newline>KNOWLEDGE BASE CONTEXT:\<newline>You have access to relevant information from the knowledge base. ''
                @ summary
                @ '':\<newline>\<newline>''
                @ contextText ragContext
                @ ''\<newline>\<newline>INSTRUCTIONS:\<newline>- When the knowledge base context is relevant to the user's question, prioritize this information\<newline>- Reference specific documents when using knowledge base information (e.g., \"according to [Document 1: filename]\")\<newline>- If the knowledge base doesn't contain relevant information for the question, rely on your general knowledge\<newline>- Be clear about when you're using knowledge base information vs. general knowledge\<newline>- Provide accurate and helpful responses based on the best available information''
        in \<lparr> prompt = enhancedPrompt,
             hasRAGContext = True,
             contextSummary = summary,
             tokenEstimate = estimateTokens enhancedPrompt \<rparr>)"

section \<open>The request validator (types.ts, index.ts)\<close>

text \<open>\<^verbatim>\<open>isChatRequest\<close> of types.ts, read for its truth value.\<close>

definition isChatRequest :: "jsval \<Rightarrow> bool" where
  "isChatRequest obj =
     (truthy obj \<and>
      typeof obj = ''object'' \<and>
      isArray (js_get obj ''messages'') \<and>
      list_all (\<lambda>msg.
          truthy msg \<and>
          typeof (js_get msg ''role'') = ''string'' \<and>
          js_get msg ''role'' \<in> set [JStr ''system'', JStr ''user'', JStr ''assistant''] \<and>
          typeof (js_get msg ''content'') = ''string'')
        (the_arr (js_get obj ''messages'')))"

record ValidationResult =
  valid :: bool
  errors :: "string list"
  warnings :: "string list"
  sanitizedInput :: "jsval option"

text \<open>
  \<^verbatim>\<open>v > n\<close> for a number \<open>n\<close>: a number compares as it is; \<^verbatim>\<open>undefined\<close> converts to
  \<^verbatim>\<open>NaN\<close> and compares false; \<^verbatim>\<open>null\<close> converts to 0, \<^verbatim>\<open>false\<close> to 0 and \<^verbatim>\<open>true\<close> to 1;
  a string, array or object goes through the conversion to a number, which may throw.
\<close>

fun exceeds :: "conversions \<Rightarrow> jsval \<Rightarrow> real \<Rightarrow> thrown + bool" where
  "exceeds cv (JNum r) n = Inr (r > n)"
| "exceeds cv JUndefined n = Inr False"
| "exceeds cv JNull n = Inr (0 > n)"
| "exceeds cv (JBool b) n = Inr ((if b then 1 else 0) > n)"
| "exceeds cv v n = gt_number cv v n"

text \<open>
  \<^verbatim>\<open>body.systemPrompt && body.systemPrompt.length > 10000\<close>, read for its truth value.
  The validator does not check the type of \<^verbatim>\<open>systemPrompt\<close>: the length of a string or
  array is a number, that of a number or boolean is \<^verbatim>\<open>undefined\<close>, and that of an object
  is whatever its property \<^verbatim>\<open>length\<close> holds.
\<close>

definition systemPrompt_too_long :: "conversions \<Rightarrow> jsval \<Rightarrow> thrown + bool" where
  "systemPrompt_too_long cv body =
     (if truthy (js_get body ''systemPrompt'')
      then exceeds cv (js_get (js_get body ''systemPrompt'') ''length'') 10000
      else Inr False)"

text \<open>
  \<^verbatim>\<open>validateChatRequest\<close>: the result it returns (\<open>Inr\<close>), or the exception that leaves
  it (\<open>Inl\<close>), which only the comparison of the system prompt's length can throw. The
  list \<^verbatim>\<open>errors\<close> grows by one \<^verbatim>\<open>push\<close> after another; the first check returns at once.
  The loop over the messages pushes once for each message that is too long (its content
  is a string, by the guard).
\<close>

definition validateChatRequest :: "conversions \<Rightarrow> jsval \<Rightarrow> thrown + ValidationResult" where
  "validateChatRequest cv body =
     (if \<not> isChatRequest body then
        Inr \<lparr> valid = False, errors = [''Invalid request structure''], warnings = [],
              sanitizedInput = None \<rparr>
      else
        let messages = the_arr (js_get body ''messages'');
            errors1 =
              (if length messages = 0 then [''At least one message is required''] else []);
            hasUserMessage = list_ex (\<lambda>msg. js_get msg ''role'' = JStr ''user'') messages;
            errors2 =
              errors1 @
              (if \<not> hasUserMessage then [''At least one user message is required''] else [])
        in case systemPrompt_too_long cv body of
             Inl e \<Rightarrow> Inl e
           | Inr too_long \<Rightarrow>
               let errors3 =
                     errors2 @
                     (if too_long
                      then [''System prompt too long (max 10000 characters)''] else []);
                   errors4 =
                     errors3 @
                     concat (map (\<lambda>msg.
                         if length (the_str (js_get msg ''content'')) > 50000
                         then [''Message content too long (max 50000 characters)''] else [])
                       messages)
               in Inr \<lparr> valid = (length errors4 = 0), errors = errors4, warnings = [],
                        sanitizedInput = (if length errors4 = 0 then Some body else None) \<rparr>)"

section \<open>The request context (index.ts)\<close>

text \<open>
  \<^verbatim>\<open>getUserMessage\<close>: \<^verbatim>\<open>userMessages[userMessages.length - 1]?.content || ""\<close>. An index
  out of range reads \<^verbatim>\<open>undefined\<close>, and \<^verbatim>\<open>?.\<close> passes it on. The content of a
  validated message is a string.
\<close>

definition getUserMessage :: "jsval list \<Rightarrow> string" where
  "getUserMessage messages =
     (let userMessages = filter (\<lambda>msg. js_get msg ''role'' = JStr ''user'') messages;
          content = (if userMessages = [] then JUndefined
                     else js_get (last userMessages) ''content'')
      in if truthy content then the_str content else [])"

text \<open>
  The own enumerable properties that an object spread \<^verbatim>\<open>{...v}\<close> copies: those of an
  object, the indexed elements of an array, the indexed characters of a string, and
  nothing for any other value.
\<close>

fun own_properties :: "jsval \<Rightarrow> (string \<times> jsval) list" where
  "own_properties (JObj kvs) = kvs"
| "own_properties (JArr xs) = map (\<lambda>p. (show_nat (fst p), snd p)) (enumerate 0 xs)"
| "own_properties (JStr s) = map (\<lambda>p. (show_nat (fst p), JStr [snd p])) (enumerate 0 s)"
| "own_properties v = []"

text \<open>
  \<^verbatim>\<open>{...target, ...v}\<close>: each property of \<open>v\<close> in turn is assigned, which overwrites
  the value of a key that is there and appends a new key. (JavaScript enumerates
  integer-like keys before the others; the list keeps the order of insertion, and the
  statements below read an object only through \<open>js_get\<close>.)
\<close>

definition spread :: "(string \<times> jsval) list \<Rightarrow> jsval \<Rightarrow> (string \<times> jsval) list" where
  "spread target v = fold (\<lambda>p. AList.update (fst p) (snd p)) (own_properties v) target"

record RequestContext =
  userMessage :: string
  systemPrompt :: jsval
  ragSettings :: "(string \<times> jsval) list"
  startTime :: nat
  requestId :: string

text \<open>
  The object literal \<^verbatim>\<open>requestContext\<close> of \<^verbatim>\<open>handleChatRequest\<close>, for the validated
  request:
  \<^verbatim>\<open>{ ...CONFIG.ragSettings, ...chatRequest.ragSettings, index: CONFIG.autoragIndex }\<close>
\<close>

definition requestContext_of :: "jsval \<Rightarrow> nat \<Rightarrow> string \<Rightarrow> RequestContext" where
  "requestContext_of chatRequest start rid =
     \<lparr> userMessage = getUserMessage (the_arr (js_get chatRequest ''messages'')),
       systemPrompt = js_get chatRequest ''systemPrompt'',
       ragSettings =
         AList.update ''index'' (JStr CONFIG_autoragIndex)
           (spread CONFIG_ragSettings (js_get chatRequest ''ragSettings'')),
       startTime = start,
       requestId = rid \<rparr>"

section \<open>Responses (index.ts)\<close>

text \<open>
  The \<^verbatim>\<open>context\<close>, \<^verbatim>\<open>message\<close>, \<^verbatim>\<open>stage\<close>, \<^verbatim>\<open>recoverable\<close> and \<^verbatim>\<open>fallbackAction\<close> of a
  \<^verbatim>\<open>ProcessingError\<close>; its \<^verbatim>\<open>details\<close> (a stack trace) is not modelled.
\<close>

record ProcessingError =
  stage :: string
  message :: string
  error_context :: RequestContext
  recoverable :: bool
  fallbackAction :: "string option"

text \<open>
  What a response carries: the chunks of a stream passed through, or the JSON object
  of \<^verbatim>\<open>createErrorResponse\<close> with its \<^verbatim>\<open>error\<close> and \<^verbatim>\<open>details\<close> (the processing error and,
  after a failed fallback, the \<^verbatim>\<open>fallbackError\<close>); its \<^verbatim>\<open>timestamp\<close> is not modelled.
\<close>

datatype payload =
    Stream "string list"
  | ErrorJson string "(ProcessingError \<times> string option) option"

text \<open>
  A \<^verbatim>\<open>Response\<close>. \<^verbatim>\<open>Headers\<close> is the list of its entries, with the names as the worker
  writes them.
\<close>

record Response =
  status :: nat
  statusText :: string
  headers :: "(string \<times> string) list"
  payload :: payload

text \<open>\<^verbatim>\<open>response.ok\<close>\<close>

definition ok :: "Response \<Rightarrow> bool" where
  "ok r = (200 \<le> status r \<and> status r \<le> 299)"

text \<open>
  \<^verbatim>\<open>headers.set(name, value)\<close>, as the Fetch standard defines it. The value is
  normalized first: leading and trailing HTTP white space (tab, line feed, carriage
  return, space) is removed. A normalized value that holds a NUL, a line feed or a
  carriage return is no header value, and \<^verbatim>\<open>set\<close> throws a \<^verbatim>\<open>TypeError\<close> (whose message
  the model does not spell out). Otherwise the entry of the name is overwritten, or a
  new one appended. A value with a code unit above 255 would throw as well; a
  character of the model has none.
\<close>

definition is_http_whitespace :: "char \<Rightarrow> bool" where
  "is_http_whitespace c = (of_char c \<in> {9, 10, 13, 32 :: nat})"

definition normalize_value :: "string \<Rightarrow> string" where
  "normalize_value v =
     rev (dropWhile is_http_whitespace (rev (dropWhile is_http_whitespace v)))"

definition is_header_value :: "string \<Rightarrow> bool" where
  "is_header_value v = list_all (\<lambda>c. of_char c \<notin> {0, 10, 13 :: nat}) v"

definition headers_set ::
    "string \<Rightarrow> string \<Rightarrow> (string \<times> string) list \<Rightarrow> thrown + (string \<times> string) list" where
  "headers_set name v hs =
     (if is_header_value (normalize_value v)
      then Inr (AList.update name (normalize_value v) hs)
      else Inl (JsError ''TypeError''))"

text \<open>One more \<^verbatim>\<open>headers.set\<close> after others: it is not reached when an earlier one threw.\<close>

definition and_set ::
    "thrown + (string \<times> string) list \<Rightarrow> string \<Rightarrow> string \<Rightarrow> thrown + (string \<times> string) list" where
  "and_set r name v = (case r of Inl e \<Rightarrow> Inl e | Inr hs \<Rightarrow> headers_set name v hs)"

text \<open>
  \<^verbatim>\<open>addCORSHeaders\<close>: three calls of \<^verbatim>\<open>headers.set\<close> with fixed values, which are header
  values as they stand, so that none of the calls throws and each stores its value
  unchanged.
\<close>

definition addCORSHeaders :: "(string \<times> string) list \<Rightarrow> (string \<times> string) list" where
  "addCORSHeaders hs =
     AList.update ''Access-Control-Allow-Headers'' ''Content-Type''
       (AList.update ''Access-Control-Allow-Methods'' ''GET, POST, OPTIONS''
         (AList.update ''Access-Control-Allow-Origin'' ''*'' hs))"

definition createErrorResponse ::
    "string \<Rightarrow> nat \<Rightarrow> (ProcessingError \<times> string option) option \<Rightarrow> Response" where
  "createErrorResponse msg code details =
     \<lparr> status = code, statusText = [],
       headers = addCORSHeaders [(''Content-Type'', ''application/json'')],
       payload = ErrorJson msg details \<rparr>"

text \<open>\<^verbatim>\<open>error instanceof Error ? error.message : dflt\<close>\<close>

fun error_message :: "thrown \<Rightarrow> string \<Rightarrow> string" where
  "error_message (JsError m) dflt = m"
| "error_message NonError dflt = dflt"

section \<open>The generation step and its fallback (index.ts)\<close>

text \<open>
  The arguments of \<^verbatim>\<open>env.AI.run(CONFIG.model, {messages, max_tokens, temperature,
  stream}, {returnRawResponse: true})\<close>.
\<close>

record llm_call =
  llm_model :: string
  llm_messages :: "jsval list"
  max_tokens :: nat
  temperature :: real
  stream_flag :: bool

definition llm_call_of :: "jsval list \<Rightarrow> llm_call" where
  "llm_call_of msgs =
     \<lparr> llm_model = CONFIG_model, llm_messages = msgs, max_tokens = 1024,
       temperature = 7 / 10, stream_flag = True \<rparr>"

text \<open>
  The bindings of the worker. \<open>AI_run env n call\<close> is what the call number \<open>n\<close> of a
  request to \<^verbatim>\<open>env.AI.run\<close> does (the first call has number 0): it throws, or it answers
  with the raw response. \<open>elapsed env\<close> is \<^verbatim>\<open>Date.now() - context.startTime\<close> at the
  moment the headers are set.
\<close>

record Env =
  AI_autorag :: autorag
  AI_run :: "nat \<Rightarrow> llm_call \<Rightarrow> thrown + Response"
  elapsed :: nat

text \<open>
  \<^verbatim>\<open>generateLLMResponse\<close>, on the messages and the call to make: its \<^verbatim>\<open>catch\<close> logs and
  throws again.
\<close>

definition generateLLMResponse ::
    "jsval list \<Rightarrow> (llm_call \<Rightarrow> thrown + Response) \<Rightarrow> thrown + Response" where
  "generateLLMResponse msgs run =
     (case run (llm_call_of msgs) of
        Inl e \<Rightarrow> Inl e
      | Inr response \<Rightarrow>
          if \<not> ok response then
            Inl (JsError (''LLM API error: '' @ show_nat (status response) @ '' ''
                           @ statusText response))
          else
            Inr \<lparr> status = status response, statusText = [],
                  headers =
                    [(''Content-Type'', ''text/event-stream''),
                     (''Cache-Control'', ''no-cache''),
                     (''Connection'', ''keep-alive''),
                     (''Access-Control-Allow-Origin'', ''*''),
                     (''Access-Control-Allow-Methods'', ''GET, POST, OPTIONS''),
                     (''Access-Control-Allow-Headers'', ''Content-Type'')],
                  payload = payload response \<rparr>)"

text \<open>\<^verbatim>\<open>context.systemPrompt || CONFIG.defaultSystemPrompt\<close>\<close>

definition basePrompt_of :: "RequestContext \<Rightarrow> jsval" where
  "basePrompt_of ctx =
     (if truthy (systemPrompt ctx) then systemPrompt ctx else JStr CONFIG_defaultSystemPrompt)"

text \<open>\<^verbatim>\<open>chatRequest.messages.filter(msg => msg.role !== "system")\<close>\<close>

definition without_system :: "jsval \<Rightarrow> jsval list" where
  "without_system chatRequest =
     filter (\<lambda>msg. js_get msg ''role'' \<noteq> JStr ''system'')
       (the_arr (js_get chatRequest ''messages''))"

text \<open>The array \<^verbatim>\<open>fallbackMessages\<close> of \<^verbatim>\<open>handlePipelineFailure\<close>.\<close>

definition fallbackMessages :: "jsval \<Rightarrow> ProcessingError \<Rightarrow> jsval list" where
  "fallbackMessages chatRequest err =
     JObj [(''role'', JStr ''system''), (''content'', basePrompt_of (error_context err))]
       # without_system chatRequest"

text \<open>
  \<^verbatim>\<open>handlePipelineFailure\<close>, with the call to make: the response, and the calls made to
  \<^verbatim>\<open>env.AI.run\<close>. Everything is inside the \<^verbatim>\<open>try\<close>: a fallback that throws, one that
  answers with a status that is not ok, and a \<^verbatim>\<open>headers.set\<close> that throws all end in the
  \<^verbatim>\<open>catch\<close>, which answers with status 503.
\<close>

definition handlePipelineFailure ::
    "jsval \<Rightarrow> ProcessingError \<Rightarrow> (llm_call \<Rightarrow> thrown + Response) \<Rightarrow> Response \<times> llm_call list" where
  "handlePipelineFailure chatRequest err run =
     (let call = llm_call_of (fallbackMessages chatRequest err);
          caught = (\<lambda>fallbackError.
            (createErrorResponse LLM_FAILURE 503
               (Some (err, Some (error_message fallbackError ''Unknown fallback error''))),
             [call]))
      in case run call of
           Inl fallbackError \<Rightarrow> caught fallbackError
         | Inr fallbackResponse \<Rightarrow>
             if \<not> ok fallbackResponse then
               caught (JsError (''Fallback LLM also failed: ''
                                 @ show_nat (status fallbackResponse)))
             else
               case and_set
                      (and_set
                        (headers_set ''X-Fallback-Used'' ''true'' (headers fallbackResponse))
                        ''X-Original-Error'' (message err))
                      ''X-Request-ID'' (requestId (error_context err)) of
                 Inl e \<Rightarrow> caught e
               | Inr hs \<Rightarrow>
                   (\<lparr> status = status fallbackResponse, statusText = [],
                      headers = addCORSHeaders hs,
                      payload = payload fallbackResponse \<rparr>,
                    [call]))"

text \<open>The \<^verbatim>\<open>processingError\<close> that the \<^verbatim>\<open>catch\<close> of \<^verbatim>\<open>processAutoRAGPipeline\<close> builds.\<close>

definition pipelineError :: "thrown \<Rightarrow> RequestContext \<Rightarrow> ProcessingError" where
  "pipelineError e ctx =
     \<lparr> stage = ''llm'',
       message = error_message e ''Pipeline processing failed'',
       error_context = ctx,
       recoverable = True,
       fallbackAction = Some ''Use general knowledge without RAG context'' \<rparr>"

text \<open>
  The value of \<^verbatim>\<open>enhancedPrompt.prompt\<close> in \<^verbatim>\<open>processAutoRAGPipeline\<close>, where
  \<^verbatim>\<open>buildEnhancedSystemPrompt\<close> is called with the base prompt
  \<^verbatim>\<open>context.systemPrompt || CONFIG.defaultSystemPrompt\<close>. The validator does not check
  the type of \<^verbatim>\<open>systemPrompt\<close>. For a base prompt that is not a string,
  \<^verbatim>\<open>buildEnhancedSystemPrompt\<close> returns the value itself when there is no context, and
  otherwise the template literal converts it to a string, which may throw; the result
  is that of the function at the converted string.
\<close>

definition enhancedPrompt_of :: "conversions \<Rightarrow> RequestContext \<Rightarrow> RAGContext \<Rightarrow> thrown + jsval" where
  "enhancedPrompt_of cv ctx ragContext =
     (case basePrompt_of ctx of
        JStr s \<Rightarrow> Inr (JStr (prompt (buildEnhancedSystemPrompt s ragContext)))
      | v \<Rightarrow>
          if \<not> hasContext ragContext then Inr v
          else case to_string cv v of
                 Inl e \<Rightarrow> Inl e
               | Inr s \<Rightarrow> Inr (JStr (prompt (buildEnhancedSystemPrompt s ragContext))))"

text \<open>
  The array \<^verbatim>\<open>enhancedMessages\<close> of \<^verbatim>\<open>processAutoRAGPipeline\<close>, for the context the
  retrieval step returned.
\<close>

definition enhancedMessages ::
    "conversions \<Rightarrow> jsval \<Rightarrow> RequestContext \<Rightarrow> RAGContext \<Rightarrow> thrown + jsval list" where
  "enhancedMessages cv chatRequest ctx ragContext =
     (case enhancedPrompt_of cv ctx ragContext of
        Inl e \<Rightarrow> Inl e
      | Inr p \<Rightarrow>
          Inr (JObj [(''role'', JStr ''system''), (''content'', p)]
                 # without_system chatRequest))"

text \<open>
  \<^verbatim>\<open>processAutoRAGPipeline\<close>: the response, and the calls made to \<^verbatim>\<open>env.AI.run\<close> in their
  order. Whatever is thrown inside the \<^verbatim>\<open>try\<close> (by the string conversion of the base
  prompt, by the generation call, by a \<^verbatim>\<open>headers.set\<close>) goes to the \<^verbatim>\<open>catch\<close> and from
  there to \<^verbatim>\<open>handlePipelineFailure\<close>.
\<close>

definition processAutoRAGPipeline ::
    "conversions \<Rightarrow> jsval \<Rightarrow> RequestContext \<Rightarrow> Env \<Rightarrow> Response \<times> llm_call list" where
  "processAutoRAGPipeline cv chatRequest ctx env =
     (let caught = (\<lambda>e made.
            let r = handlePipelineFailure chatRequest (pipelineError e ctx)
                      (AI_run env (length made))
            in (fst r, made @ snd r))
      in case searchAutoRAG (userMessage ctx) (JObj (ragSettings ctx)) (AI_autorag env) of
           Inl e \<Rightarrow> caught e []
         | Inr ragContext \<Rightarrow>
             case enhancedMessages cv chatRequest ctx ragContext of
               Inl e \<Rightarrow> caught e []
             | Inr msgs \<Rightarrow>
                 case generateLLMResponse msgs (AI_run env 0) of
                   Inl e \<Rightarrow> caught e [llm_call_of msgs]
                 | Inr response \<Rightarrow>
                     case and_set
                            (and_set
                              (and_set
                                (headers_set ''X-Processing-Time''
                                   (show_nat (elapsed env) @ ''ms'') (headers response))
                                ''X-RAG-Documents'' (show_nat (documentCount ragContext)))
                              ''X-RAG-Average-Score'' (toFixed (averageScore ragContext) 3))
                            ''X-Request-ID'' (requestId ctx) of
                       Inl e \<Rightarrow> caught e [llm_call_of msgs]
                     | Inr hs \<Rightarrow>
                         (\<lparr> status = status response, statusText = statusText response,
                            headers = hs, payload = payload response \<rparr>,
                          [llm_call_of msgs]))"

text \<open>
  \<^verbatim>\<open>handleChatRequest\<close>, on what \<^verbatim>\<open>request.json()\<close> gave (a body, or an exception), the
  start time and the request id. An exception inside its \<^verbatim>\<open>try\<close>, from \<^verbatim>\<open>request.json()\<close>
  or from the validator, gives status 500.
\<close>

definition handleChatRequest ::
    "conversions \<Rightarrow> thrown + jsval \<Rightarrow> Env \<Rightarrow> nat \<Rightarrow> string \<Rightarrow> Response \<times> llm_call list" where
  "handleChatRequest cv parsed env start rid =
     (let fatal = (\<lambda>e.
            (createErrorResponse ''Internal server error occurred'' 500
               (Some (\<lparr> stage = ''validation'',
                        message = error_message e ''Unknown error'',
                        error_context =
                          \<lparr> userMessage = ''Unknown'', systemPrompt = JUndefined,
                            ragSettings = CONFIG_ragSettings, startTime = start,
                            requestId = rid \<rparr>,
                        recoverable = False,
                        fallbackAction = None \<rparr>, None)),
             []))
      in case parsed of
           Inl e \<Rightarrow> fatal e
         | Inr body \<Rightarrow>
             case validateChatRequest cv body of
               Inl e \<Rightarrow> fatal e
             | Inr validation \<Rightarrow>
                 if \<not> valid validation then
                   (createErrorResponse
                      (''Invalid request: '' @ js_join '', '' (errors validation)) 400 None,
                    [])
                 else
                   case sanitizedInput validation of
                     None \<Rightarrow> fatal (JsError ''TypeError'')
                   | Some chatRequest \<Rightarrow>
                       processAutoRAGPipeline cv chatRequest
                         (requestContext_of chatRequest start rid) env)"

section \<open>The client: stream consumer and retry controller (chat.js)\<close>

text \<open>\<^verbatim>\<open>s.split(sep)\<close> for a separator of one character.\<close>

fun js_split :: "char \<Rightarrow> string \<Rightarrow> string list" where
  "js_split sep [] = [[]]"
| "js_split sep (c # cs) =
     (if c = sep then [] # js_split sep cs
      else case js_split sep cs of
             l # ls \<Rightarrow> (c # l) # ls
           | [] \<Rightarrow> [[c]])"

text \<open>
  The built-in functions the stream consumer calls, as parameters: \<^verbatim>\<open>JSON.parse\<close>
  (\<open>None\<close> when it throws a \<^verbatim>\<open>SyntaxError\<close>) and the conversion to a string that \<^verbatim>\<open>+=\<close>
  applies to a value that is not a string.
\<close>

record builtins =
  JSON_parse :: "string \<Rightarrow> jsval option"
  to_text :: "jsval \<Rightarrow> string"

text \<open>\<^verbatim>\<open>responseText += v\<close>\<close>

definition appended_text :: "builtins \<Rightarrow> jsval \<Rightarrow> string" where
  "appended_text bi v = (case v of JStr s \<Rightarrow> s | _ \<Rightarrow> to_text bi v)"

text \<open>
  The body of the loop over the lines of a chunk in \<^verbatim>\<open>processStreamingResponse\<close>, on
  the pair of \<^verbatim>\<open>responseText\<close> and \<^verbatim>\<open>hasContent\<close>. Inside the \<^verbatim>\<open>try\<close>, \<^verbatim>\<open>JSON.parse\<close> may
  throw, and so does reading \<^verbatim>\<open>jsonData.response\<close> when the parsed value is \<^verbatim>\<open>null\<close>; the
  \<^verbatim>\<open>catch\<close> takes the line as plain text unless it starts with \<^verbatim>\<open>data:\<close> or a colon.
\<close>

definition processLine :: "builtins \<Rightarrow> string \<times> bool \<Rightarrow> string \<Rightarrow> string \<times> bool" where
  "processLine bi acc line =
     (let responseText = fst acc;
          caught =
            (if js_trim line \<noteq> [] \<and> \<not> startsWith line ''data:'' \<and> \<not> startsWith line '':''
             then (responseText @ line, True) else acc);
          use = (\<lambda>parsed.
            case parsed of
              None \<Rightarrow> caught
            | Some jsonData \<Rightarrow>
                if nullish jsonData then caught
                else if truthy (js_get jsonData ''response'')
                then (responseText @ appended_text bi (js_get jsonData ''response''), True)
                else acc)
      in if js_trim line = [] \<or> startsWith line '':'' then acc
         else if startsWith line ''data: '' then use (JSON_parse bi (drop 6 line))
         else if js_trim line \<noteq> [] then use (JSON_parse bi line)
         else acc)"

text \<open>
  The \<^verbatim>\<open>while\<close> loop of \<^verbatim>\<open>processStreamingResponse\<close> over the decoded chunks of a stream
  that ends (a read that rejects is not modelled): the final \<^verbatim>\<open>responseText\<close> and
  \<^verbatim>\<open>hasContent\<close>.
\<close>

definition readStream :: "builtins \<Rightarrow> string list \<Rightarrow> string \<times> bool" where
  "readStream bi chunks =
     foldl (\<lambda>acc chunk. foldl (processLine bi) acc (js_split (CHR 0x0A) chunk)) ([], False) chunks"

text \<open>
  An entry of \<^verbatim>\<open>chatHistory\<close>. The metadata of an assistant entry is read from the
  response headers; the entry keeps those headers.
\<close>

record history_entry =
  role :: string
  content :: string
  timestamp :: nat
  metadata :: "(string \<times> string) list option"

text \<open>The object \<^verbatim>\<open>requestBody\<close> of \<^verbatim>\<open>sendChatRequest\<close>.\<close>

record request_body =
  rb_messages :: "history_entry list"
  rb_systemPrompt :: "string option"
  rb_ragSettings :: "(string \<times> jsval) list"

text \<open>The two callbacks that \<^verbatim>\<open>handleChatError\<close> hands to \<^verbatim>\<open>setTimeout\<close>.\<close>

datatype timer = RetryNotice | RetrySend

text \<open>
  The state of the page: the two input fields, the global variables, the messages
  shown in the element \<^verbatim>\<open>chat-messages\<close> (role and text), the pending timers with
  their delays in milliseconds, and the bodies of the requests sent so far.
\<close>

record client =
  userInput_value :: string
  systemPromptInput_value :: string
  chatHistory :: "history_entry list"
  isProcessing :: bool
  messageIdCounter :: nat
  retryAttempts :: nat
  chatMessages :: "(string \<times> string) list"
  timers :: "(nat \<times> timer) list"
  requests :: "request_body list"

definition maxRetryAttempts :: nat where
  "maxRetryAttempts = 3"

definition UNKNOWN_ERROR :: string where
  "UNKNOWN_ERROR = ''An unexpected error occurred. Please try again.''"

definition RATE_LIMITED :: string where
  "RATE_LIMITED = ''Too many requests. Please wait a moment before trying again.''"

definition NETWORK_ERROR :: string where
  "NETWORK_ERROR = ''Network error occurred. Please check your connection.''"

definition TIMEOUT :: string where
  "TIMEOUT = ''Request timed out. Please try again with a shorter message.''"

text \<open>\<^verbatim>\<open>generateMessageId\<close>, for its effect: it increments the counter.\<close>

definition generateMessageId :: "client \<Rightarrow> client" where
  "generateMessageId c = c\<lparr> messageIdCounter := messageIdCounter c + 1 \<rparr>"

text \<open>
  \<^verbatim>\<open>addMessageToChat\<close> and \<^verbatim>\<open>createAssistantMessageElement\<close> append an element to
  \<^verbatim>\<open>chat-messages\<close>, the second one with no text yet.
\<close>

definition addMessageToChat :: "string \<Rightarrow> string \<Rightarrow> client \<Rightarrow> client" where
  "addMessageToChat r text c = c\<lparr> chatMessages := chatMessages c @ [(r, text)] \<rparr>"

definition createAssistantMessageElement :: "client \<Rightarrow> client" where
  "createAssistantMessageElement c = c\<lparr> chatMessages := chatMessages c @ [(''assistant'', [])] \<rparr>"

text \<open>
  The \<^verbatim>\<open>if\<close> chain of \<^verbatim>\<open>handleChatError\<close> on \<^verbatim>\<open>error.message\<close>: the text shown and
  \<^verbatim>\<open>shouldRetry\<close>.
\<close>

definition classify :: "string \<Rightarrow> string \<times> bool" where
  "classify msg =
     (if js_includes msg ''HTTP 503'' \<or> js_includes msg ''HTTP 502'' then (LLM_FAILURE, True)
      else if js_includes msg ''HTTP 429'' then (RATE_LIMITED, True)
      else if js_includes msg ''NetworkError'' \<or> js_includes msg ''Failed to fetch''
        then (NETWORK_ERROR, True)
      else if js_includes msg ''timeout'' then (TIMEOUT, False)
      else (UNKNOWN_ERROR, False))"

text \<open>\<^verbatim>\<open>handleChatError\<close>, on the message of the error.\<close>

definition handleChatError :: "string \<Rightarrow> client \<Rightarrow> client" where
  "handleChatError msg c =
     (let errorMessage = fst (classify msg);
          shouldRetry = snd (classify msg);
          c1 = addMessageToChat ''assistant'' errorMessage (generateMessageId c)
      in if shouldRetry \<and> retryAttempts c1 < maxRetryAttempts then
           c1\<lparr> retryAttempts := retryAttempts c1 + 1,
               timers := timers c1 @ [(1000, RetryNotice),
                                      (2000 * (retryAttempts c1 + 1), RetrySend)] \<rparr>
         else c1\<lparr> retryAttempts := 0 \<rparr>)"

text \<open>\<^verbatim>\<open>sendChatRequest\<close>: the body it posts, from the page as it is at that moment.\<close>

definition sendChatRequest :: "client \<Rightarrow> request_body" where
  "sendChatRequest c =
     \<lparr> rb_messages = chatHistory c,
       rb_systemPrompt =
         (if js_trim (systemPromptInput_value c) \<noteq> []
          then Some (js_trim (systemPromptInput_value c)) else None),
       rb_ragSettings =
         AList.update ''index'' (JStr CONFIG_autoragIndex) CONFIG_ragSettings \<rparr>"

text \<open>
  \<^verbatim>\<open>processStreamingResponse\<close>, on the response: the text of the assistant element (the
  last one of \<^verbatim>\<open>chat-messages\<close> when it is called) is the accumulated text; an entry is
  pushed to the history when that text is not empty; the result is the message of the
  error thrown, if any. The indicator and the metadata shown next to the message are
  not modelled. A JSON error body has no \<^verbatim>\<open>response\<close> field and adds no text.
\<close>

definition stream_chunks :: "Response \<Rightarrow> string list" where
  "stream_chunks response = (case payload response of Stream cs \<Rightarrow> cs | ErrorJson m d \<Rightarrow> [])"

definition processStreamingResponse ::
    "builtins \<Rightarrow> nat \<Rightarrow> Response \<Rightarrow> client \<Rightarrow> string option \<times> client" where
  "processStreamingResponse bi now response c =
     (let responseText = fst (readStream bi (stream_chunks response));
          hasContent = snd (readStream bi (stream_chunks response));
          c1 = c\<lparr> chatMessages := butlast (chatMessages c) @ [(''assistant'', responseText)] \<rparr>;
          c2 = (if responseText \<noteq> [] then
                  c1\<lparr> chatHistory := chatHistory c1 @
                        [\<lparr> role = ''assistant'', content = responseText, timestamp = now,
                           metadata = Some (headers response) \<rparr>] \<rparr>
                else c1)
      in if \<not> hasContent then (Some ''No response content received'', c2) else (None, c2))"

text \<open>What \<^verbatim>\<open>fetch\<close> does: it rejects with an error of some message, or it answers.\<close>

datatype fetch_result = Rejects string | Answers Response

text \<open>
  \<^verbatim>\<open>sendMessage\<close>, given the time and what the one \<^verbatim>\<open>fetch\<close> it may make does. The guard
  returns at once for an empty input or a request in flight. The \<^verbatim>\<open>finally\<close> clears
  \<^verbatim>\<open>isProcessing\<close>.
\<close>

definition sendMessage :: "builtins \<Rightarrow> nat \<Rightarrow> fetch_result \<Rightarrow> client \<Rightarrow> client" where
  "sendMessage bi now net c =
     (let text = js_trim (userInput_value c) in
      if text = [] \<or> isProcessing c then c
      else
        let c1 = c\<lparr> isProcessing := True \<rparr>;
            c2 = addMessageToChat ''user'' text (generateMessageId c1);
            c3 = c2\<lparr> userInput_value := [] \<rparr>;
            c4 = c3\<lparr> chatHistory := chatHistory c3 @
                     [\<lparr> role = ''user'', content = text, timestamp = now, metadata = None \<rparr>] \<rparr>;
            c5 = createAssistantMessageElement (generateMessageId c4);
            c6 = c5\<lparr> requests := requests c5 @ [sendChatRequest c5] \<rparr>;
            c7 = (case net of
                    Rejects msg \<Rightarrow> handleChatError msg c6
                  | Answers response \<Rightarrow>
                      if \<not> ok response then
                        handleChatError
                          (''HTTP '' @ show_nat (status response) @ '': '' @ statusText response) c6
                      else
                        case processStreamingResponse bi now response c6 of
                          (Some msg, c') \<Rightarrow> handleChatError msg c'
                        | (None, c') \<Rightarrow> c'\<lparr> retryAttempts := 0 \<rparr>)
        in c7\<lparr> isProcessing := False \<rparr>)"

text \<open>
  A pending timer fires and is pending no more: the notice reads \<^verbatim>\<open>retryAttempts\<close> at
  that moment, the retry calls \<^verbatim>\<open>sendMessage()\<close>.
\<close>

definition fire :: "builtins \<Rightarrow> nat \<Rightarrow> fetch_result \<Rightarrow> nat \<times> timer \<Rightarrow> client \<Rightarrow> client" where
  "fire bi now net t c =
     (let c1 = c\<lparr> timers := remove1 t (timers c) \<rparr> in
      case snd t of
        RetryNotice \<Rightarrow>
          addMessageToChat ''assistant''
            (''Retrying... (attempt '' @ show_nat (retryAttempts c1) @ '' of ''
               @ show_nat maxRetryAttempts @ '')'') (generateMessageId c1)
      | RetrySend \<Rightarrow> sendMessage bi now net c1)"

section \<open>Auxiliary notions for the statements\<close>

text \<open>
  The documents that reach \<^verbatim>\<open>contextParts\<close>, \<^verbatim>\<open>sources\<close> and \<^verbatim>\<open>totalScore\<close>: those
  that pass the guard and have text left after trimming.
\<close>

definition contributes :: "jsval \<Rightarrow> bool" where
  "contributes doc = (isSearchResult doc \<and> textContent doc \<noteq> [])"

text \<open>
  The average as the specification words it: the scores of all shape-valid documents,
  those with empty text too, over the raw length of the array, and 0 for no document.
\<close>

definition spec_averageScore :: "jsval list \<Rightarrow> real" where
  "spec_averageScore documents =
     (if documents = [] then 0
      else sum_list (map (\<lambda>doc. the_num (js_get doc ''score'')) (filter isSearchResult documents))
             / of_nat (length documents))"

text \<open>The summary line of the retrieval-context block, as the specification words it.\<close>

definition spec_summary :: "RAGContext \<Rightarrow> string" where
  "spec_summary rc =
     ''Found '' @ show_nat (documentCount rc) @ '' relevant documents (avg. relevance: ''
       @ toFixed (averageScore rc) 2 @ '')''"

text \<open>The retrieval-context block: its heading, the summary and the full context text.\<close>

definition retrieval_block :: "RAGContext \<Rightarrow> string" where
  "retrieval_block rc =
     ''\<newline>\<newline>KNOWLEDGE BASE CONTEXT:\<newline>You have access to relevant information from the knowledge base. ''
       @ spec_summary rc @ '':\<newline>\<newline>'' @ contextText rc"

text \<open>The fixed instruction bullet points, one line each.\<close>

definition instruction_bullets :: "string list" where
  "instruction_bullets =
     [''- When the knowledge base context is relevant to the user's question, prioritize this information'',
      ''- Reference specific documents when using knowledge base information (e.g., \"according to [Document 1: filename]\")'',
      ''- If the knowledge base doesn't contain relevant information for the question, rely on your general knowledge'',
      ''- Be clear about when you're using knowledge base information vs. general knowledge'',
      ''- Provide accurate and helpful responses based on the best available information'']"

text \<open>A message of role \<^verbatim>\<open>user\<close>.\<close>

definition is_user :: "jsval \<Rightarrow> bool" where
  "is_user msg = (js_get msg ''role'' = JStr ''user'')"

text \<open>
  A failed exchange, as \<^verbatim>\<open>sendMessage\<close> sees it: the message of the error its \<^verbatim>\<open>catch\<close>
  receives, for what \<^verbatim>\<open>fetch\<close> does. The request is rejected, or answered with a status
  that is not ok, or answered with a stream that ends with no text fragment
  accumulated; \<open>None\<close> is a successful exchange.
\<close>

definition failure_of :: "builtins \<Rightarrow> fetch_result \<Rightarrow> string option" where
  "failure_of bi net =
     (case net of
        Rejects msg \<Rightarrow> Some msg
      | Answers response \<Rightarrow>
          if \<not> ok response
          then Some (''HTTP '' @ show_nat (status response) @ '': '' @ statusText response)
          else if \<not> snd (readStream bi (stream_chunks response))
          then Some ''No response content received''
          else None)"

text \<open>The history entry that \<^verbatim>\<open>sendMessage\<close> pushes for the text of the input field.\<close>

definition user_entry :: "client \<Rightarrow> nat \<Rightarrow> history_entry" where
  "user_entry c now =
     \<lparr> role = ''user'', content = js_trim (userInput_value c), timestamp = now,
       metadata = None \<rparr>"

section \<open>Concrete inputs\<close>

text \<open>A shape-valid document with no text, two documents with text, a search response.\<close>

definition doc_empty_text :: jsval where
  "doc_empty_text =
     JObj [(''file_id'', JStr ''f1''), (''filename'', JStr ''a.txt''),
           (''score'', JNum (1 / 2)), (''content'', JArr [])]"

definition doc_a :: jsval where
  "doc_a =
     JObj [(''file_id'', JStr ''f2''), (''filename'', JStr ''manual.pdf''),
           (''score'', JNum (4 / 5)),
           (''content'', JArr [JObj [(''id'', JStr ''c1''), (''type'', JStr ''text''),
                                    (''text'', JStr '' Dry the wall. '')]])]"

definition doc_b :: jsval where
  "doc_b =
     JObj [(''file_id'', JStr ''f3''), (''filename'', JStr ''faq.md''),
           (''score'', JNum (2 / 5)),
           (''content'', JArr [JObj [(''id'', JStr ''c2''), (''type'', JStr ''text''),
                                    (''text'', JStr ''Call us.'')]])]"

definition response_of :: "jsval list \<Rightarrow> jsval" where
  "response_of documents =
     JObj [(''object'', JStr ''vector_store.search_results.page''),
           (''search_query'', JStr ''q''), (''data'', JArr documents),
           (''has_more'', JBool False), (''next_page'', JNull)]"

text \<open>A search binding that answers every call with the same value, one that throws.\<close>

definition answering :: "jsval \<Rightarrow> autorag" where
  "answering v index options = Inr v"

definition failing :: "thrown \<Rightarrow> autorag" where
  "failing e index options = Inl e"

definition server_ragSettings :: jsval where
  "server_ragSettings =
     JObj [(''maxResults'', JNum 5), (''scoreThreshold'', JNum (1 / 10)),
           (''rewriteQuery'', JBool True), (''index'', JStr ''damagescan-rag-1'')]"

text \<open>
  Conversions that do what JavaScript does for an object and for a string of decimal
  digits. An object compares false with a number and converts to \<^verbatim>\<open>[object Object]\<close>,
  unless it has an own property \<^verbatim>\<open>toString\<close> (which JSON cannot make a function), when
  the conversion throws a \<^verbatim>\<open>TypeError\<close>. A string of decimal digits compares as the
  number it writes, the empty string as 0. For other strings and for arrays they give
  fixed answers, which no statement below uses.
\<close>

definition is_digit_char :: "char \<Rightarrow> bool" where
  "is_digit_char c = (48 \<le> (of_char c :: nat) \<and> (of_char c :: nat) \<le> 57)"

definition read_digits :: "string \<Rightarrow> nat" where
  "read_digits t = foldl (\<lambda>n c. 10 * n + (of_char c - 48)) 0 t"

definition sample_gt :: "jsval \<Rightarrow> real \<Rightarrow> thrown + bool" where
  "sample_gt v n =
     (case v of
        JObj kvs \<Rightarrow>
          if map_of kvs ''toString'' = None then Inr False else Inl (JsError ''TypeError'')
      | JStr t \<Rightarrow>
          if list_all is_digit_char t then Inr (real (read_digits t) > n) else Inr False
      | _ \<Rightarrow> Inr False)"

definition sample_string :: "jsval \<Rightarrow> thrown + string" where
  "sample_string v =
     (case v of
        JObj kvs \<Rightarrow>
          if map_of kvs ''toString'' = None then Inr ''[object Object]''
          else Inl (JsError ''TypeError'')
      | _ \<Rightarrow> Inr [])"

definition sample_conversions :: conversions where
  "sample_conversions = \<lparr> gt_number = sample_gt, to_string = sample_string \<rparr>"

text \<open>Request bodies.\<close>

definition body_bad_role :: jsval where
  "body_bad_role =
     JObj [(''messages'', JArr [JObj [(''role'', JStr ''bot''), (''content'', JStr ''hi'')]])]"

definition body_many_errors :: jsval where
  "body_many_errors =
     JObj [(''messages'', JArr []), (''systemPrompt'', JStr (replicate 10001 (CHR ''x'')))]"

definition body_empty_question :: jsval where
  "body_empty_question =
     JObj [(''messages'', JArr [JObj [(''role'', JStr ''user''), (''content'', JStr [])]])]"

definition body_two_questions :: jsval where
  "body_two_questions =
     JObj [(''messages'',
        JArr [JObj [(''role'', JStr ''user''), (''content'', JStr ''first'')],
              JObj [(''role'', JStr ''assistant''), (''content'', JStr ''answer'')],
              JObj [(''role'', JStr ''user''), (''content'', JStr ''second'')],
              JObj [(''role'', JStr ''assistant''), (''content'', JStr ''more'')]]),
       (''ragSettings'', JObj [(''maxResults'', JNum 3), (''index'', JStr ''other-index'')])]"

definition body_no_index :: jsval where
  "body_no_index =
     JObj [(''messages'', JArr [JObj [(''role'', JStr ''user''), (''content'', JStr ''hello'')]]),
       (''ragSettings'', JObj [(''maxResults'', JNum 3)])]"

definition body_unconvertible :: jsval where
  "body_unconvertible =
     JObj [(''messages'', JArr []),
       (''systemPrompt'', JObj [(''length'', JObj [(''toString'', JNum 1)])])]"

definition body_length_text :: jsval where
  "body_length_text =
     JObj [(''messages'', JArr [JObj [(''role'', JStr ''user''), (''content'', JStr ''hello'')]]),
       (''systemPrompt'', JObj [(''length'', JStr ''20000'')])]"



definition upstream_200 :: Response where
  "upstream_200 =
     \<lparr> status = 200, statusText = ''OK'',
       headers = [(''content-type'', ''text/event-stream'')],
       payload = Stream [''data: {\"response\":\"Hi\"}\<newline>\<newline>''] \<rparr>"



text \<open>
  An upstream answer with no reason phrase, and model bindings whose first call
  answers with it, or throws an error with a line break in its message; the search of
  these bindings fails, so that there is no retrieval context.
\<close>

definition upstream_500_bare :: Response where
  "upstream_500_bare = \<lparr> status = 500, statusText = [], headers = [], payload = Stream [] \<rparr>"

definition first_call_bare :: "nat \<Rightarrow> llm_call \<Rightarrow> thrown + Response" where
  "first_call_bare n call = (if n = 0 then Inr upstream_500_bare else Inr upstream_200)"


definition env_bare :: Env where
  "env_bare = \<lparr> AI_autorag = failing NonError, AI_run = first_call_bare, elapsed = 12 \<rparr>"


text \<open>A \<^verbatim>\<open>JSON.parse\<close> that knows three texts, a page with a question typed, three answers.\<close>

definition tiny_parse :: "string \<Rightarrow> jsval option" where
  "tiny_parse s =
     (if s = ''{}'' then Some (JObj [])
      else if s = ''{\"response\":\"Hi\"}'' then Some (JObj [(''response'', JStr ''Hi'')])
      else if s = ''null'' then Some JNull
      else None)"

definition tiny_text :: "jsval \<Rightarrow> string" where
  "tiny_text v = []"

definition tiny_json :: builtins where
  "tiny_json = \<lparr> JSON_parse = tiny_parse, to_text = tiny_text \<rparr>"

definition page_hello :: client where
  "page_hello =
     \<lparr> userInput_value = ''hello'', systemPromptInput_value = [],
       chatHistory = [], isProcessing = False, messageIdCounter = 0, retryAttempts = 0,
       chatMessages = [], timers = [], requests = [] \<rparr>"

definition answer_empty :: Response where
  "answer_empty =
     \<lparr> status = 200, statusText = ''OK'', headers = [(''X-RAG-Documents'', ''0'')],
       payload = Stream ['': keep-alive\<newline>\<newline>'', ''data: {}\<newline>''] \<rparr>"

definition answer_hi :: Response where
  "answer_hi =
     \<lparr> status = 200, statusText = ''OK'', headers = [(''X-RAG-Documents'', ''2'')],
       payload = Stream [''data: {\"response\":\"Hi\"}\<newline>\<newline>'', ''null''] \<rparr>"

definition answer_503 :: Response where
  "answer_503 =
     \<lparr> status = 503, statusText = ''Service Unavailable'', headers = [],
       payload = ErrorJson LLM_FAILURE None \<rparr>"

section \<open>Properties of the retrieval step\<close>

lemma foldl_forEach_doc:
  "foldl forEach_doc st (enumerate n docs) =
     \<lparr> contextParts = contextParts st
         @ map (\<lambda>p. contextEntry (fst p) (snd p))
             (filter (\<lambda>p. contributes (snd p)) (enumerate n docs)),
       sources_acc = sources_acc st @ map sourceOf (filter contributes docs),
       totalScore = totalScore st
         + sum_list (map (\<lambda>d. the_num (js_get d ''score'')) (filter contributes docs)) \<rparr>"
  by (induction docs arbitrary: st n) (simp_all add: forEach_doc_def contributes_def Let_def)

lemma length_filter_full: "length (filter P xs) = length xs \<longleftrightarrow> list_all P xs"
proof (induction xs)
  case Nil
  show ?case by simp
next
  case (Cons x xs)
  have "length (filter P xs) \<noteq> Suc (length xs)"
    using length_filter_le [of P xs] by linarith
  with Cons show ?case by auto
qed

lemma buildRAGContext_fields:
  "documentCount (buildRAGContext docs) = length docs"
  "sources (buildRAGContext docs) = map sourceOf (filter contributes docs)"
  by (simp_all add: buildRAGContext_def createEmptyRAGContext_def foldl_forEach_doc Let_def)

lemma doc_empty_text_shape:
  "isSearchResult doc_empty_text" "textContent doc_empty_text = []"
  by (simp_all add: doc_empty_text_def isSearchResult_def textContent_def js_trim_def)

lemma doc_a_contributes: "contributes doc_a"
  by (simp add: contributes_def doc_a_def isSearchResult_def textContent_def js_trim_def
      is_js_space_def)

lemma doc_b_contributes: "contributes doc_b"
  by (simp add: contributes_def doc_b_def isSearchResult_def textContent_def js_trim_def
      is_js_space_def)

text \<open>
  C1, as stated, fails: a response whose only document is shape-valid with no text has
  average 0, where the sum of the scores of the shape-valid documents over the length
  is 1/2.
\<close>

theorem averageScore_counterexample:
  "isSearchResult doc_empty_text \<and>
   averageScore (buildRAGContext [doc_empty_text]) = 0 \<and>
   spec_averageScore [doc_empty_text] = 1 / 2"
  by (simp add: doc_empty_text_shape spec_averageScore_def buildRAGContext_def
      forEach_doc_def Let_def)
    (simp add: doc_empty_text_def)

text \<open>
  C1 (amended): \<^verbatim>\<open>averageScore\<close> is the sum of the scores of the documents that are
  shape-valid and have non-empty text, divided by the raw length of the array of the
  response, and 0 when the array is empty.
\<close>

theorem averageScore_buildRAGContext:
  "averageScore (buildRAGContext documents) =
     (if documents = [] then 0
      else sum_list (map (\<lambda>doc. the_num (js_get doc ''score'')) (filter contributes documents))
             / of_nat (length documents))"
  by (simp add: buildRAGContext_def createEmptyRAGContext_def foldl_forEach_doc Let_def)

theorem averageScore_buildRAGContext_witness:
  "averageScore (buildRAGContext [doc_a, doc_empty_text, doc_b]) = 2 / 5"
proof -
  have "\<not> contributes doc_empty_text"
    by (simp add: contributes_def doc_empty_text_shape)
  moreover have "the_num (js_get doc_a ''score'') = 4 / 5" "the_num (js_get doc_b ''score'') = 2 / 5"
    by (simp_all add: doc_a_def doc_b_def)
  ultimately show ?thesis
    using averageScore_buildRAGContext [of "[doc_a, doc_empty_text, doc_b]"]
    by (simp add: doc_a_contributes doc_b_contributes)
qed

text \<open>
  C2, as stated, fails: for a response holding one shape-valid document with no text
  and one value that is no document at all, \<^verbatim>\<open>documentCount\<close> is 2 and \<^verbatim>\<open>sources\<close> is
  empty.
\<close>

theorem documentCount_counterexample:
  "searchAutoRAG ''q'' server_ragSettings (answering (response_of [doc_empty_text, JNull])) =
     Inr \<lparr> contextText = [], documentCount = 2, averageScore = 0, sources = [],
           hasContext = False \<rparr>"
  by (simp add: searchAutoRAG_def searchAutoRAG_try_def server_ragSettings_def answering_def
      response_of_def buildRAGContext_def forEach_doc_def Let_def doc_empty_text_shape
      isSearchResult_def)

text \<open>
  C2 (amended): \<^verbatim>\<open>documentCount\<close> is the raw length of the array of the response and
  \<^verbatim>\<open>sources\<close> has one entry for each document that is shape-valid with non-empty text;
  so \<^verbatim>\<open>sources\<close> is never longer than \<^verbatim>\<open>documentCount\<close>, for every context the
  retrieval step returns, and the two agree exactly when every document of the array
  is shape-valid with non-empty text. In the empty fallback context both are 0.
\<close>

theorem documentCount_sources:
  "(\<exists>rc. searchAutoRAG q settings search = Inr rc \<and> length (sources rc) \<le> documentCount rc) \<and>
   documentCount (buildRAGContext documents) = length documents \<and>
   length (sources (buildRAGContext documents)) = length (filter contributes documents) \<and>
   (documentCount (buildRAGContext documents) = length (sources (buildRAGContext documents))
      \<longleftrightarrow> list_all contributes documents) \<and>
   documentCount createEmptyRAGContext = 0 \<and> sources createEmptyRAGContext = []"
proof -
  have le: "length (sources (buildRAGContext ds)) \<le> documentCount (buildRAGContext ds)" for ds
    by (simp add: buildRAGContext_fields)
  have empty: "documentCount createEmptyRAGContext = 0" "sources createEmptyRAGContext = []"
    by (simp_all add: createEmptyRAGContext_def)
  have "\<exists>rc. searchAutoRAG q settings search = Inr rc \<and> length (sources rc) \<le> documentCount rc"
    using le by (auto simp: searchAutoRAG_def searchAutoRAG_try_def empty split: sum.splits)
  moreover have "documentCount (buildRAGContext documents) = length (sources (buildRAGContext documents))
      \<longleftrightarrow> list_all contributes documents"
    using length_filter_full [of contributes documents] by (auto simp: buildRAGContext_fields)
  ultimately show ?thesis
    by (simp add: buildRAGContext_fields empty)
qed

theorem documentCount_sources_witness:
  "documentCount (buildRAGContext [doc_a, doc_b]) = 2 \<and>
   length (sources (buildRAGContext [doc_a, doc_b])) = 2 \<and>
   documentCount (buildRAGContext [doc_a, JNull]) = 2 \<and>
   length (sources (buildRAGContext [doc_a, JNull])) = 1"
proof -
  have "\<not> contributes JNull" by (simp add: contributes_def isSearchResult_def)
  then show ?thesis
    using documentCount_sources [of "''q''" server_ragSettings "failing NonError" "[doc_a, doc_b]"]
      documentCount_sources [of "''q''" server_ragSettings "failing NonError" "[doc_a, JNull]"]
    by (simp add: doc_a_contributes doc_b_contributes)
qed

text \<open>
  C5: the retrieval step never raises. Whatever the query, the settings and the search
  binding, the promise of \<^verbatim>\<open>searchAutoRAG\<close> is fulfilled with a context; when reading the
  settings throws, when the binding throws, or when the response is falsy, has a falsy
  \<^verbatim>\<open>data\<close> or a \<^verbatim>\<open>data\<close> that is no array, that context is the empty one, which has
  \<^verbatim>\<open>documentCount = 0\<close> and \<^verbatim>\<open>hasContext = false\<close>.
\<close>

theorem searchAutoRAG_never_raises:
  "\<exists>rc. searchAutoRAG q settings search = Inr rc \<and>
     ((nullish settings \<or>
       (case search (js_get settings ''index'') (searchOptions_of q settings) of
          Inl e \<Rightarrow> True
        | Inr searchResult \<Rightarrow>
            \<not> truthy searchResult \<or> \<not> truthy (js_get searchResult ''data'')
            \<or> \<not> isArray (js_get searchResult ''data'')))
      \<longrightarrow> rc = createEmptyRAGContext \<and> documentCount rc = 0 \<and> \<not> hasContext rc)"
  by (auto simp: searchAutoRAG_def searchAutoRAG_try_def createEmptyRAGContext_def
      split: sum.splits)

theorem searchAutoRAG_never_raises_witness:
  "searchAutoRAG ''q'' server_ragSettings (failing (JsError ''network down'')) =
     Inr createEmptyRAGContext \<and>
   searchAutoRAG ''q'' server_ragSettings (answering (JObj [(''data'', JStr ''oops'')])) =
     Inr createEmptyRAGContext \<and>
   searchAutoRAG ''q'' JUndefined (answering (response_of [doc_a])) =
     Inr createEmptyRAGContext"
  using searchAutoRAG_never_raises [of "''q''" server_ragSettings "failing (JsError ''network down'')"]
    searchAutoRAG_never_raises [of "''q''" server_ragSettings "answering (JObj [(''data'', JStr ''oops'')])"]
    searchAutoRAG_never_raises [of "''q''" JUndefined "answering (response_of [doc_a])"]
  by (auto simp: failing_def answering_def server_ragSettings_def)

section \<open>Properties of the prompt augmenter\<close>

lemma buildRAGContext_doc_a_doc_b:
  "buildRAGContext [doc_a, doc_b] =
     \<lparr> contextText = ''[Document 1: manual.pdf (Relevance: 0.80)]\<newline>Dry the wall.\<newline>\<newline>[Document 2: faq.md (Relevance: 0.40)]\<newline>Call us.'',
       documentCount = 2,
       averageScore = 3 / 5,
       sources = [\<lparr> filename = ''manual.pdf'', score = 4 / 5, relevantText = ''Dry the wall.'' \<rparr>,
                  \<lparr> filename = ''faq.md'', score = 2 / 5, relevantText = ''Call us.'' \<rparr>],
       hasContext = True \<rparr>"
  by (simp add: buildRAGContext_def forEach_doc_def Let_def doc_a_def doc_b_def
      isSearchResult_def textContent_def js_trim_def is_js_space_def contextEntry_def
      sourceOf_def toFixed_def show_nat.simps digit_def numeral_2_eq_2)

text \<open>
  C8: for a context with \<^verbatim>\<open>hasContext = true\<close> and any base prompt, the augmented prompt
  is the base prompt, then the retrieval-context block (whose summary reads
  "Found \<open>documentCount\<close> relevant documents (avg. relevance: \<open>averageScore\<close> to 2
  decimals)" and which ends with the full \<^verbatim>\<open>contextText\<close>), then the heading of the
  instructions and exactly five fixed bullet points, one line each.
\<close>

theorem buildEnhancedSystemPrompt_shape:
  "hasContext rc \<Longrightarrow>
     prompt (buildEnhancedSystemPrompt base rc) =
       base @ retrieval_block rc @ ''\<newline>\<newline>INSTRUCTIONS:\<newline>''
         @ js_join ''\<newline>'' instruction_bullets \<and>
     prefix base (prompt (buildEnhancedSystemPrompt base rc)) \<and>
     contextSummary (buildEnhancedSystemPrompt base rc) = spec_summary rc \<and>
     length instruction_bullets = 5 \<and>
     list_all (\<lambda>b. prefix ''- '' b \<and> CHR 0x0A \<notin> set b) instruction_bullets"
  by (simp add: buildEnhancedSystemPrompt_def Let_def retrieval_block_def spec_summary_def
      instruction_bullets_def)

theorem buildEnhancedSystemPrompt_shape_witness:
  "hasContext (buildRAGContext [doc_a, doc_b]) \<and>
   contextSummary (buildEnhancedSystemPrompt ''Be brief.'' (buildRAGContext [doc_a, doc_b]))
     = ''Found 2 relevant documents (avg. relevance: 0.60)'' \<and>
   prefix ''Be brief.'' (prompt (buildEnhancedSystemPrompt ''Be brief.'' (buildRAGContext [doc_a, doc_b])))"
proof -
  have h: "hasContext (buildRAGContext [doc_a, doc_b])"
    by (simp add: buildRAGContext_doc_a_doc_b)
  have s: "spec_summary (buildRAGContext [doc_a, doc_b])
             = ''Found 2 relevant documents (avg. relevance: 0.60)''"
    by (simp add: buildRAGContext_doc_a_doc_b spec_summary_def toFixed_def show_nat.simps
        digit_def numeral_2_eq_2)
  show ?thesis
    using buildEnhancedSystemPrompt_shape [OF h, of "''Be brief.''"] h s by simp
qed

section \<open>Properties of the request validator\<close>

lemma typeof_string: "typeof v = ''string'' \<Longrightarrow> \<exists>s. v = JStr s"
  by (cases v) simp_all

lemma concat_ifs:
  "concat (map (\<lambda>x. if P x then [e] else []) xs) = map (\<lambda>x. e) (filter P xs)"
  by (induction xs) simp_all

lemma systemPrompt_too_long_string:
  "js_get body ''systemPrompt'' = JStr s \<Longrightarrow> systemPrompt_too_long cv body = Inr (10000 < length s)"
  by (simp add: systemPrompt_too_long_def)

lemma systemPrompt_too_long_absent:
  "js_get body ''systemPrompt'' = JUndefined \<Longrightarrow> systemPrompt_too_long cv body = Inr False"
  by (simp add: systemPrompt_too_long_def)

lemma validateChatRequest_guard:
  "\<not> isChatRequest body \<Longrightarrow>
     validateChatRequest cv body =
       Inr \<lparr> valid = False, errors = [''Invalid request structure''], warnings = [],
             sanitizedInput = None \<rparr>"
  by (simp add: validateChatRequest_def)

lemma validateChatRequest_returns:
  assumes "isChatRequest body" and "validateChatRequest cv body = Inr v"
  shows "errors v =
           (if the_arr (js_get body ''messages'') = []
            then [''At least one message is required''] else []) @
           (if list_ex is_user (the_arr (js_get body ''messages''))
            then [] else [''At least one user message is required'']) @
           (if systemPrompt_too_long cv body = Inr True
            then [''System prompt too long (max 10000 characters)''] else []) @
           map (\<lambda>msg. ''Message content too long (max 50000 characters)'')
             (filter (\<lambda>msg. 50000 < length (the_str (js_get msg ''content'')))
               (the_arr (js_get body ''messages'')))"
    and "valid v = (errors v = [])"
    and "warnings v = []"
    and "sanitizedInput v = (if valid v then Some body else None)"
  using assms
  by (auto simp: validateChatRequest_def Let_def concat_ifs is_user_def [abs_def]
      split: sum.splits)

lemma valid_isChatRequest:
  "validateChatRequest cv body = Inr v \<Longrightarrow> valid v \<Longrightarrow> isChatRequest body"
  by (auto simp: validateChatRequest_def split: if_splits)

lemma valid_has_user:
  assumes "validateChatRequest cv body = Inr v" and "valid v"
  shows "filter is_user (the_arr (js_get body ''messages'')) \<noteq> []"
proof -
  have g: "isChatRequest body" using assms by (rule valid_isChatRequest)
  have "errors v = []"
    using validateChatRequest_returns(2) [OF g assms(1)] assms(2) by simp
  then have "list_ex is_user (the_arr (js_get body ''messages''))"
    using validateChatRequest_returns(1) [OF g assms(1)] by (simp split: if_splits)
  then show ?thesis by (simp add: list_ex_iff filter_empty_conv)
qed

lemma isChatRequest_content:
  "isChatRequest body \<Longrightarrow> msg \<in> set (the_arr (js_get body ''messages'')) \<Longrightarrow>
     js_get msg ''content'' = JStr (the_str (js_get msg ''content''))"
  by (auto simp: isChatRequest_def list_all_iff dest!: typeof_string)

text \<open>
  When the comparison of the system prompt's length throws, the validator throws, and
  the request is answered with status 500.
\<close>

lemma handleChatRequest_validator_throws:
  "status (fst (handleChatRequest sample_conversions (Inr body_unconvertible) env_bare 0 ''req_1''))
     = 500"
  by (simp add: body_unconvertible_def isChatRequest_def validateChatRequest_def Let_def
      systemPrompt_too_long_def sample_conversions_def sample_gt_def handleChatRequest_def
      createErrorResponse_def)

text \<open>
  An object as system prompt with the text \<^verbatim>\<open>20000\<close> as its length is too long: the
  comparison converts the text to a number.
\<close>

lemma validateChatRequest_converted_length:
  "validateChatRequest sample_conversions body_length_text =
     Inr \<lparr> valid = False, errors = [''System prompt too long (max 10000 characters)''],
           warnings = [], sanitizedInput = None \<rparr>"
  by (simp add: body_length_text_def isChatRequest_def validateChatRequest_def Let_def
      systemPrompt_too_long_def sample_conversions_def sample_gt_def is_digit_char_def
      read_digits_def)

text \<open>
  C6, as stated, fails. A body whose only message has the role \<^verbatim>\<open>bot\<close> has no user
  message, and its error list is the single entry "Invalid request structure". A body
  with no message and the system prompt \<^verbatim>\<open>{"length": {"toString": 1}}\<close> passes the guard
  and violates two rules, and the validator gives no error list: it throws.
\<close>

theorem validateChatRequest_counterexample:
  "\<not> list_ex is_user (the_arr (js_get body_bad_role ''messages'')) \<and>
   validateChatRequest sample_conversions body_bad_role =
     Inr \<lparr> valid = False, errors = [''Invalid request structure''], warnings = [],
           sanitizedInput = None \<rparr> \<and>
   isChatRequest body_unconvertible \<and>
   the_arr (js_get body_unconvertible ''messages'') = [] \<and>
   validateChatRequest sample_conversions body_unconvertible = Inl (JsError ''TypeError'')"
  by (simp add: body_bad_role_def validateChatRequest_def isChatRequest_def is_user_def
      body_unconvertible_def systemPrompt_too_long_def sample_conversions_def sample_gt_def)

text \<open>
  C6 (amended): for every decoded JSON body that passes the structural guard
  \<^verbatim>\<open>isChatRequest\<close> and for which the validator returns, if any validation rule is
  violated the validator rejects with an error list that has an entry for every
  violated rule, not only for the first; in particular every such request whose
  messages lack a user-role message is rejected with an error list that contains "At
  least one user message is required", whatever other errors are present. A body that
  fails the guard is rejected with the single error "Invalid request structure".

  The statement gives the whole list, so that nothing else can be in it: the entry for
  an empty message list, the entry for a missing user message, the entry for a system
  prompt whose length compares greater than 10000 (for a string: more than 10000
  characters; never for an absent one), and one entry for each message whose content
  has more than 50000 characters; the request is rejected exactly when the list is not
  empty. The validator returns for every body that passes the guard and whose system
  prompt is absent or a string.
\<close>

theorem validateChatRequest_errors:
  "(\<not> isChatRequest body \<longrightarrow>
      validateChatRequest cv body =
        Inr \<lparr> valid = False, errors = [''Invalid request structure''], warnings = [],
              sanitizedInput = None \<rparr>) \<and>
   (isChatRequest body \<and> validateChatRequest cv body = Inr v \<longrightarrow>
      errors v =
        (if the_arr (js_get body ''messages'') = []
         then [''At least one message is required''] else []) @
        (if list_ex is_user (the_arr (js_get body ''messages''))
         then [] else [''At least one user message is required'']) @
        (if systemPrompt_too_long cv body = Inr True
         then [''System prompt too long (max 10000 characters)''] else []) @
        map (\<lambda>msg. ''Message content too long (max 50000 characters)'')
          (filter (\<lambda>msg. 50000 < length (the_str (js_get msg ''content'')))
            (the_arr (js_get body ''messages''))) \<and>
      valid v = (errors v = []) \<and>
      warnings v = [] \<and>
      sanitizedInput v = (if valid v then Some body else None) \<and>
      (\<not> list_ex is_user (the_arr (js_get body ''messages'')) \<longrightarrow>
         ''At least one user message is required'' \<in> set (errors v) \<and> \<not> valid v)) \<and>
   (isChatRequest body \<and> js_get body ''systemPrompt'' = JStr s \<longrightarrow>
      systemPrompt_too_long cv body = Inr (10000 < length s) \<and>
      (\<exists>w. validateChatRequest cv body = Inr w)) \<and>
   (isChatRequest body \<and> js_get body ''systemPrompt'' = JUndefined \<longrightarrow>
      systemPrompt_too_long cv body = Inr False \<and>
      (\<exists>w. validateChatRequest cv body = Inr w))"
proof (intro conjI impI)
  assume "\<not> isChatRequest body"
  then show "validateChatRequest cv body =
        Inr \<lparr> valid = False, errors = [''Invalid request structure''], warnings = [],
              sanitizedInput = None \<rparr>"
    by (rule validateChatRequest_guard)
next
  assume a: "isChatRequest body \<and> validateChatRequest cv body = Inr v"
  then have g: "isChatRequest body" and r: "validateChatRequest cv body = Inr v"
    by simp_all
  note e = validateChatRequest_returns [OF g r]
  show "errors v =
        (if the_arr (js_get body ''messages'') = []
         then [''At least one message is required''] else []) @
        (if list_ex is_user (the_arr (js_get body ''messages''))
         then [] else [''At least one user message is required'']) @
        (if systemPrompt_too_long cv body = Inr True
         then [''System prompt too long (max 10000 characters)''] else []) @
        map (\<lambda>msg. ''Message content too long (max 50000 characters)'')
          (filter (\<lambda>msg. 50000 < length (the_str (js_get msg ''content'')))
            (the_arr (js_get body ''messages'')))"
    by (rule e(1))
  show "valid v = (errors v = [])" by (rule e(2))
  show "warnings v = []" by (rule e(3))
  show "sanitizedInput v = (if valid v then Some body else None)" by (rule e(4))
  assume n: "\<not> list_ex is_user (the_arr (js_get body ''messages''))"
  show "''At least one user message is required'' \<in> set (errors v)"
    by (subst e(1)) (simp add: n)
  then show "\<not> valid v" by (auto simp: e(2))
next
  assume a: "isChatRequest body \<and> js_get body ''systemPrompt'' = JStr s"
  then show l: "systemPrompt_too_long cv body = Inr (10000 < length s)"
    by (simp add: systemPrompt_too_long_string)
  from a show "\<exists>w. validateChatRequest cv body = Inr w"
    by (simp add: validateChatRequest_def Let_def l)
next
  assume a: "isChatRequest body \<and> js_get body ''systemPrompt'' = JUndefined"
  then show l: "systemPrompt_too_long cv body = Inr False"
    by (simp add: systemPrompt_too_long_absent)
  from a show "\<exists>w. validateChatRequest cv body = Inr w"
    by (simp add: validateChatRequest_def Let_def l)
qed

theorem validateChatRequest_errors_witness:
  "\<exists>v. validateChatRequest sample_conversions body_many_errors = Inr v \<and>
     errors v = [''At least one message is required'',
                 ''At least one user message is required'',
                 ''System prompt too long (max 10000 characters)''] \<and>
     \<not> valid v"
proof -
  have g: "isChatRequest body_many_errors"
    by (simp add: body_many_errors_def isChatRequest_def)
  have c: "js_get body_many_errors ''systemPrompt'' = JStr (replicate 10001 (CHR ''x''))"
    "the_arr (js_get body_many_errors ''messages'') = []"
    by (simp_all add: body_many_errors_def)
  from validateChatRequest_errors [of body_many_errors sample_conversions _
      "replicate 10001 (CHR ''x'')"] g c(1)
  obtain w where w: "validateChatRequest sample_conversions body_many_errors = Inr w"
    and l: "systemPrompt_too_long sample_conversions body_many_errors = Inr True"
    by auto
  from validateChatRequest_errors [of body_many_errors sample_conversions w] g w
  have "errors w =
        (if the_arr (js_get body_many_errors ''messages'') = []
         then [''At least one message is required''] else []) @
        (if list_ex is_user (the_arr (js_get body_many_errors ''messages''))
         then [] else [''At least one user message is required'']) @
        (if systemPrompt_too_long sample_conversions body_many_errors = Inr True
         then [''System prompt too long (max 10000 characters)''] else []) @
        map (\<lambda>msg. ''Message content too long (max 50000 characters)'')
          (filter (\<lambda>msg. 50000 < length (the_str (js_get msg ''content'')))
            (the_arr (js_get body_many_errors ''messages'')))"
    and "valid w = (errors w = [])"
    by blast+
  then have "errors w = [''At least one message is required'',
                 ''At least one user message is required'',
                 ''System prompt too long (max 10000 characters)'']" and "\<not> valid w"
    by (simp_all add: c(2) l)
  with w show ?thesis by blast
qed

section \<open>Properties of the request context\<close>

text \<open>
  C9, as stated, fails: a validated request whose only message is a user message with
  empty content gives the empty query, though a user message exists.
\<close>

theorem getUserMessage_counterexample:
  "validateChatRequest sample_conversions body_empty_question =
     Inr \<lparr> valid = True, errors = [], warnings = [],
           sanitizedInput = Some body_empty_question \<rparr> \<and>
   list_ex is_user (the_arr (js_get body_empty_question ''messages'')) \<and>
   userMessage (requestContext_of body_empty_question 0 ''req_1'') = []"
  by (simp add: body_empty_question_def validateChatRequest_def isChatRequest_def is_user_def
      requestContext_of_def getUserMessage_def systemPrompt_too_long_def)

text \<open>
  C9 (amended): for every validated request there is a user-role message, and the
  query sent to the retrieval step (\<^verbatim>\<open>RequestContext.userMessage\<close>) is the content of the
  last user-role message of the message sequence; so it is empty only if that content
  is the empty string. For a message sequence with no user-role message
  \<^verbatim>\<open>getUserMessage\<close> gives the empty string.
\<close>

theorem getUserMessage_last:
  "validateChatRequest cv body = Inr v \<Longrightarrow> valid v \<Longrightarrow>
     filter is_user (the_arr (js_get body ''messages'')) \<noteq> [] \<and>
     js_get (last (filter is_user (the_arr (js_get body ''messages'')))) ''content''
       = JStr (userMessage (requestContext_of body start rid)) \<and>
     getUserMessage (filter (\<lambda>msg. \<not> is_user msg) msgs) = []"
proof -
  assume r: "validateChatRequest cv body = Inr v" and v: "valid v"
  let ?us = "filter is_user (the_arr (js_get body ''messages''))"
  have ne: "?us \<noteq> []" using r v by (rule valid_has_user)
  then have "last ?us \<in> set ?us" by (rule last_in_set)
  then have m: "last ?us \<in> set (the_arr (js_get body ''messages''))" by simp
  have "isChatRequest body" using r v by (rule valid_isChatRequest)
  then have c: "js_get (last ?us) ''content'' = JStr (the_str (js_get (last ?us) ''content''))"
    using m by (rule isChatRequest_content)
  have t: "truthy (js_get (last ?us) ''content'') \<longleftrightarrow> the_str (js_get (last ?us) ''content'') \<noteq> []"
    by (subst c) simp
  have u: "userMessage (requestContext_of body start rid) = the_str (js_get (last ?us) ''content'')"
    using ne t by (simp add: requestContext_of_def getUserMessage_def Let_def is_user_def [abs_def])
  have "filter is_user (filter (\<lambda>msg. \<not> is_user msg) msgs) = []"
    by (simp add: filter_empty_conv)
  then have "getUserMessage (filter (\<lambda>msg. \<not> is_user msg) msgs) = []"
    by (simp add: getUserMessage_def Let_def is_user_def [abs_def] del: filter_filter)
  with ne c u show ?thesis by simp
qed

theorem getUserMessage_last_witness:
  "validateChatRequest sample_conversions body_two_questions =
     Inr \<lparr> valid = True, errors = [], warnings = [],
           sanitizedInput = Some body_two_questions \<rparr> \<and>
   userMessage (requestContext_of body_two_questions 0 ''req_1'') = ''second''"
proof -
  have r: "validateChatRequest sample_conversions body_two_questions =
     Inr \<lparr> valid = True, errors = [], warnings = [],
           sanitizedInput = Some body_two_questions \<rparr>"
    by (simp add: body_two_questions_def validateChatRequest_def isChatRequest_def
        systemPrompt_too_long_def)
  have "js_get (last (filter is_user (the_arr (js_get body_two_questions ''messages'')))) ''content''
          = JStr ''second''"
    by (simp add: body_two_questions_def is_user_def)
  with getUserMessage_last [OF r, of 0 "''req_1''" "[]"] r show ?thesis by simp
qed

lemma map_of_fold_update:
  "map_of (fold (\<lambda>p. AList.update (fst p) (snd p)) src tgt) k =
     (case map_of (rev src) k of Some v \<Rightarrow> Some v | None \<Rightarrow> map_of tgt k)"
proof (induction src arbitrary: tgt)
  case Nil
  show ?case by simp
next
  case (Cons p src)
  show ?case
    by (cases p) (simp add: Cons.IH update_conv' map_add_def split: option.splits)
qed

lemma map_of_rev_delete:
  "k \<noteq> k' \<Longrightarrow> map_of (rev (AList.delete k' rs)) k = map_of (rev rs) k"
  by (induction rs) (auto simp: map_add_def split: option.splits)

lemma spread_other_keys:
  assumes "AList.delete ''index'' rs1 = AList.delete ''index'' rs2" and "k \<noteq> ''index''"
  shows "map_of (spread tgt (JObj rs1)) k = map_of (spread tgt (JObj rs2)) k"
proof -
  have "map_of (rev rs1) k = map_of (rev rs2) k"
    using map_of_rev_delete [OF assms(2), of rs1] map_of_rev_delete [OF assms(2), of rs2] assms(1)
    by simp
  then show ?thesis by (simp add: spread_def map_of_fold_update)
qed

text \<open>
  C10: take two requests whose client-supplied \<^verbatim>\<open>ragSettings\<close> objects are the same once
  the property \<^verbatim>\<open>index\<close> is removed from both (they differ at most in that field: in
  its value, or in having it at all). Then the \<^verbatim>\<open>ragSettings\<close> of the two request
  contexts have the same value at every property, their \<^verbatim>\<open>index\<close> is the configured
  \<^verbatim>\<open>autoragIndex\<close>, and the retrieval step makes the same search call for both. The
  statement needs no validity of the requests, so it holds for validated ones.
\<close>

theorem client_index_ignored:
  assumes "js_get body1 ''ragSettings'' = JObj rs1"
      and "js_get body2 ''ragSettings'' = JObj rs2"
      and "AList.delete ''index'' rs1 = AList.delete ''index'' rs2"
  shows "(\<forall>k. js_get (JObj (ragSettings (requestContext_of body1 start1 rid1))) k
            = js_get (JObj (ragSettings (requestContext_of body2 start2 rid2))) k) \<and>
         js_get (JObj (ragSettings (requestContext_of body1 start1 rid1))) ''index''
            = JStr CONFIG_autoragIndex \<and>
         searchAutoRAG q (JObj (ragSettings (requestContext_of body1 start1 rid1))) search
            = searchAutoRAG q (JObj (ragSettings (requestContext_of body2 start2 rid2))) search"
proof -
  let ?r1 = "ragSettings (requestContext_of body1 start1 rid1)"
  let ?r2 = "ragSettings (requestContext_of body2 start2 rid2)"
  have m: "map_of ?r1 k = map_of ?r2 k" for k
    using spread_other_keys [OF assms(3), of k CONFIG_ragSettings] assms(1,2)
    by (cases "k = ''index''") (simp_all add: requestContext_of_def update_conv')
  then have g: "js_get (JObj ?r1) k = js_get (JObj ?r2) k" for k by simp
  have i: "js_get (JObj ?r1) ''index'' = JStr CONFIG_autoragIndex"
    by (simp add: requestContext_of_def update_conv')
  have "searchAutoRAG q (JObj ?r1) search = searchAutoRAG q (JObj ?r2) search"
    by (simp add: searchAutoRAG_def searchAutoRAG_try_def searchOptions_of_def g
        del: js_get.simps)
  with g i show ?thesis by blast
qed

theorem client_index_ignored_witness:
  "ragSettings (requestContext_of body_two_questions 0 ''req_1'') =
     [(''maxResults'', JNum 3), (''scoreThreshold'', JNum (1 / 10)),
      (''rewriteQuery'', JBool True), (''index'', JStr ''damagescan-rag-1'')] \<and>
   js_get (JObj (ragSettings (requestContext_of body_no_index 5 ''req_2''))) ''index''
     = JStr ''damagescan-rag-1'' \<and>
   js_get (JObj (ragSettings (requestContext_of body_no_index 5 ''req_2''))) ''maxResults''
     = JNum 3"
proof -
  have a: "js_get body_two_questions ''ragSettings''
             = JObj [(''maxResults'', JNum 3), (''index'', JStr ''other-index'')]"
    by (simp add: body_two_questions_def)
  have b: "js_get body_no_index ''ragSettings'' = JObj [(''maxResults'', JNum 3)]"
    by (simp add: body_no_index_def)
  have c: "AList.delete ''index'' [(''maxResults'', JNum 3), (''index'', JStr ''other-index'')]
             = AList.delete ''index'' [(''maxResults'', JNum 3)]"
    by simp
  have d: "ragSettings (requestContext_of body_two_questions 0 ''req_1'') =
     [(''maxResults'', JNum 3), (''scoreThreshold'', JNum (1 / 10)),
      (''rewriteQuery'', JBool True), (''index'', JStr ''damagescan-rag-1'')]"
    by (simp add: requestContext_of_def a spread_def CONFIG_ragSettings_def
        CONFIG_autoragIndex_def)
  have g: "js_get (JObj (ragSettings (requestContext_of body_two_questions 0 ''req_1''))) k
             = js_get (JObj (ragSettings (requestContext_of body_no_index 5 ''req_2''))) k" for k
    using client_index_ignored [OF a b c, of 0 "''req_1''" 5 "''req_2''" "''q''" "failing NonError"]
    by blast
  from g [of "''index''"] g [of "''maxResults''"] d show ?thesis
    by simp
qed

section \<open>Properties of the generation step\<close>

lemma headers_set_accepts:
  "is_header_value (normalize_value v) \<Longrightarrow>
     headers_set name v hs = Inr (AList.update name (normalize_value v) hs)"
  by (simp add: headers_set_def)

text \<open>The three values of \<^verbatim>\<open>addCORSHeaders\<close> are accepted and stored as they are.\<close>

lemma addCORSHeaders_sets:
  "and_set (and_set (headers_set ''Access-Control-Allow-Origin'' ''*'' hs)
      ''Access-Control-Allow-Methods'' ''GET, POST, OPTIONS'')
      ''Access-Control-Allow-Headers'' ''Content-Type''
     = Inr (addCORSHeaders hs)"
  by (simp add: and_set_def headers_set_def normalize_value_def is_http_whitespace_def
      is_header_value_def addCORSHeaders_def)








section \<open>Properties of the client\<close>

lemma js_trim_hello: "js_trim ''hello'' = ''hello''"
  by (simp add: js_trim_def is_js_space_def)

lemma classify_no_content: "classify ''No response content received'' = (UNKNOWN_ERROR, False)"
  by (simp add: classify_def)

lemma classify_503: "classify ''HTTP 503: Service Unavailable'' = (LLM_FAILURE, True)"
  by (simp add: classify_def)

lemma readStream_answer_empty: "readStream tiny_json (stream_chunks answer_empty) = ([], False)"
  by (simp add: readStream_def stream_chunks_def answer_empty_def processLine_def tiny_json_def
      tiny_parse_def js_trim_def is_js_space_def startsWith_def Let_def)

text \<open>
  The stream consumer does accumulate text: the fragment of a \<^verbatim>\<open>data:\<close> line, and a line
  \<^verbatim>\<open>null\<close> as plain text, since reading \<^verbatim>\<open>response\<close> of \<^verbatim>\<open>null\<close> throws.
\<close>

lemma readStream_answer_hi: "readStream tiny_json (stream_chunks answer_hi) = (''Hinull'', True)"
  by (simp add: readStream_def stream_chunks_def answer_hi_def processLine_def tiny_json_def
      tiny_parse_def js_trim_def is_js_space_def startsWith_def Let_def appended_text_def)

text \<open>
  C3, as stated, fails: the page sends "hello", the answer has status 200 and a stream
  with no text fragment; afterwards no timer is pending (no retry is scheduled), the
  attempt count is 0 and one request has been sent.
\<close>

theorem empty_stream_counterexample:
  "failure_of tiny_json (Answers answer_empty) = Some ''No response content received'' \<and>
   timers (sendMessage tiny_json 7 (Answers answer_empty) page_hello) = [] \<and>
   retryAttempts (sendMessage tiny_json 7 (Answers answer_empty) page_hello) = 0 \<and>
   length (requests (sendMessage tiny_json 7 (Answers answer_empty) page_hello)) = 1"
  by (simp add: failure_of_def sendMessage_def processStreamingResponse_def Let_def
      readStream_answer_empty classify_no_content handleChatError_def page_hello_def
      js_trim_hello addMessageToChat_def generateMessageId_def
      createAssistantMessageElement_def)
    (simp add: answer_empty_def ok_def)

text \<open>
  C3 (amended): when the page sends a message and the answer is ok but its stream ends
  with zero text fragments accumulated, \<^verbatim>\<open>processStreamingResponse\<close> throws the error "No
  response content received" and the exchange is handled as failed: the retry
  controller shows the generic error text, classifies the failure as not retryable,
  schedules no timer (so no retry) and sets the attempt count to 0.
\<close>

theorem empty_stream_not_retried:
  assumes "js_trim (userInput_value c) \<noteq> []" and "\<not> isProcessing c"
      and "ok response" and "snd (readStream bi (stream_chunks response)) = False"
  shows "fst (processStreamingResponse bi now response c0)
           = Some ''No response content received'' \<and>
         failure_of bi (Answers response) = Some ''No response content received'' \<and>
         snd (classify ''No response content received'') = False \<and>
         timers (sendMessage bi now (Answers response) c) = timers c \<and>
         retryAttempts (sendMessage bi now (Answers response) c) = 0 \<and>
         last (chatMessages (sendMessage bi now (Answers response) c))
           = (''assistant'', UNKNOWN_ERROR) \<and>
         length (requests (sendMessage bi now (Answers response) c)) = length (requests c) + 1"
  using assms
  by (simp add: sendMessage_def processStreamingResponse_def Let_def handleChatError_def
      classify_no_content addMessageToChat_def generateMessageId_def failure_of_def
      createAssistantMessageElement_def split: prod.splits)

theorem empty_stream_not_retried_witness:
  "last (chatMessages (sendMessage tiny_json 7 (Answers answer_empty) page_hello))
     = (''assistant'', ''An unexpected error occurred. Please try again.'') \<and>
   timers (sendMessage tiny_json 7 (Answers answer_empty) page_hello) = []"
proof -
  have a: "js_trim (userInput_value page_hello) \<noteq> []" "\<not> isProcessing page_hello"
    "timers page_hello = []"
    by (simp_all add: page_hello_def js_trim_hello)
  have b: "ok answer_empty" by (simp add: ok_def answer_empty_def)
  have c: "snd (readStream tiny_json (stream_chunks answer_empty)) = False"
    by (simp add: readStream_answer_empty)
  from empty_stream_not_retried [OF a(1) a(2) b c, of 7 page_hello] a(3) show ?thesis
    by (simp add: UNKNOWN_ERROR_def)
qed

text \<open>
  C4, at the failing input. When the page sends a message, the exchange fails with an
  error classified as retryable and the attempt count is below 3, then the attempt
  count goes up by one, the request sent has the history with the text of the input
  field as its last message, and the retry is scheduled after 2000 times the new
  attempt count milliseconds. But \<^verbatim>\<open>sendMessage\<close> has emptied the input field, and the
  retry is a call of \<^verbatim>\<open>sendMessage()\<close> that reads its text from that field: when the
  timer fires, whatever the network would do, no request is sent.
\<close>

theorem retry_sends_nothing:
  assumes "js_trim (userInput_value c) \<noteq> []" and "\<not> isProcessing c"
      and "retryAttempts c < maxRetryAttempts"
      and "failure_of bi net = Some msg" and "snd (classify msg)"
  shows "retryAttempts (sendMessage bi now net c) = retryAttempts c + 1 \<and>
         timers (sendMessage bi now net c)
           = timers c @ [(1000, RetryNotice), (2000 * (retryAttempts c + 1), RetrySend)] \<and>
         map rb_messages (requests (sendMessage bi now net c))
           = map rb_messages (requests c) @ [chatHistory c @ [user_entry c now]] \<and>
         userInput_value (sendMessage bi now net c) = [] \<and>
         requests (fire bi now' net' (2000 * (retryAttempts c + 1), RetrySend)
                     (sendMessage bi now net c))
           = requests (sendMessage bi now net c)"
proof (cases net)
  case (Rejects m)
  with assms show ?thesis
    by (simp add: sendMessage_def Let_def handleChatError_def fire_def failure_of_def
        addMessageToChat_def generateMessageId_def createAssistantMessageElement_def
        sendChatRequest_def user_entry_def js_trim_def)
next
  case (Answers response)
  show ?thesis
  proof (cases "ok response")
    case False
    with assms Answers show ?thesis
      by (simp add: sendMessage_def Let_def handleChatError_def fire_def failure_of_def
          addMessageToChat_def generateMessageId_def createAssistantMessageElement_def
          sendChatRequest_def user_entry_def js_trim_def)
  next
    case True
    with assms Answers have "msg = ''No response content received''"
      by (simp add: failure_of_def split: if_splits)
    with assms(5) show ?thesis by (simp add: classify_no_content)
  qed
qed

theorem retry_sends_nothing_witness:
  "timers (sendMessage tiny_json 7 (Answers answer_503) page_hello)
     = [(1000, RetryNotice), (2000, RetrySend)] \<and>
   length (requests (sendMessage tiny_json 7 (Answers answer_503) page_hello)) = 1 \<and>
   length (requests (fire tiny_json 2007 (Answers answer_hi) (2000, RetrySend)
     (sendMessage tiny_json 7 (Answers answer_503) page_hello))) = 1"
proof -
  have a: "js_trim (userInput_value page_hello) \<noteq> []" "\<not> isProcessing page_hello"
    "retryAttempts page_hello < maxRetryAttempts"
    by (simp_all add: page_hello_def js_trim_hello maxRetryAttempts_def)
  have b: "failure_of tiny_json (Answers answer_503) = Some ''HTTP 503: Service Unavailable''"
    by (simp add: failure_of_def answer_503_def ok_def show_nat.simps digit_def)
  have c: "snd (classify ''HTTP 503: Service Unavailable'')"
    by (simp add: classify_503)
  have d: "timers page_hello = []" "requests page_hello = []" "retryAttempts page_hello = 0"
    by (simp_all add: page_hello_def)
  from retry_sends_nothing [OF a b c, of 7 2007 "Answers answer_hi"] d
  have "timers (sendMessage tiny_json 7 (Answers answer_503) page_hello)
          = [(1000, RetryNotice), (2000, RetrySend)]"
    "map rb_messages (requests (sendMessage tiny_json 7 (Answers answer_503) page_hello))
          = [chatHistory page_hello @ [user_entry page_hello 7]]"
    "requests (fire tiny_json 2007 (Answers answer_hi) (2000, RetrySend)
        (sendMessage tiny_json 7 (Answers answer_503) page_hello))
          = requests (sendMessage tiny_json 7 (Answers answer_503) page_hello)"
    by simp_all
  moreover from this(2)
  have "length (requests (sendMessage tiny_json 7 (Answers answer_503) page_hello)) = 1"
    using length_map [of rb_messages "requests (sendMessage tiny_json 7 (Answers answer_503) page_hello)"]
    by simp
  ultimately show ?thesis by simp
qed

end
